theory Spec2Isabelle
  imports Complex_Main "HOL-Library.FSet" "HOL-Library.Multiset" "HOL-Library.List_Lexorder"
    "HOL-Library.Char_ord"
begin

section \<open>Values of the module\<close>

text \<open>
  The module \<^verbatim>\<open>snips_nlu/intent_classifier/feature_extraction.py\<close> is embedded function
  by function. Python exceptions are values of \<open>py_error\<close>; a function that may raise
  returns \<open>py_error + 'a\<close> with \<open>Inl\<close> for the exception. The first five constructors
  are the exceptions that the module and its collaborators raise. \<open>StateMismatchError\<close>
  and \<open>UnknownLanguageError\<close> are error kinds that the specification names; no function
  of the module constructs them.

  The p-values that \<^verbatim>\<open>chi2\<close> returns are numpy floats and may be NaN: they are values of
  \<open>npfloat\<close>, compared as numpy compares them. The other floats (the threshold, the IDF
  values, the entries of a matrix) are modelled as \<open>real\<close>, without rounding. Strings
  are \<open>string\<close>, so \<^verbatim>\<open>encode("utf8")\<close> is the identity.
\<close>

datatype py_error =
    AttributeError | KeyError | IndexError | ValueError | NotFittedError
  | StateMismatchError | UnknownLanguageError

text \<open>
  A numpy float that is a number or NaN. Every comparison with NaN is false, and the
  minimum of an array that holds a NaN is NaN. \<^verbatim>\<open>min\<close> of an empty array raises in numpy;
  the module never evaluates it there (see \<open>select_pvalues\<close>).
\<close>

datatype npfloat = Val real | NaN

definition np_less :: "npfloat \<Rightarrow> real \<Rightarrow> bool" where
  "np_less v t = (case v of Val x \<Rightarrow> x < t | NaN \<Rightarrow> False)"

definition np_greater :: "npfloat \<Rightarrow> real \<Rightarrow> bool" where
  "np_greater v t = (case v of Val x \<Rightarrow> x > t | NaN \<Rightarrow> False)"

definition np_eq :: "npfloat \<Rightarrow> npfloat \<Rightarrow> bool" where
  "np_eq v w = (case v of Val x \<Rightarrow> (case w of Val y \<Rightarrow> x = y | NaN \<Rightarrow> False) | NaN \<Rightarrow> False)"

definition np_min2 :: "npfloat \<Rightarrow> npfloat \<Rightarrow> npfloat" where
  "np_min2 v w = (case v of Val x \<Rightarrow> (case w of Val y \<Rightarrow> Val (min x y) | NaN \<Rightarrow> NaN) | NaN \<Rightarrow> NaN)"

fun np_min :: "npfloat list \<Rightarrow> npfloat" where
  "np_min [] = NaN"
| "np_min [v] = v"
| "np_min (v # w # ws) = np_min2 v (np_min (w # ws))"

text \<open>
  \<^verbatim>\<open>snips_nlu.languages.Language\<close>: the fields that this module reads
  (\<^verbatim>\<open>language.iso_code\<close>, \<^verbatim>\<open>language.default_sep\<close>).
\<close>

record Language =
  iso_code :: string
  default_sep :: string

text \<open>
  The dataset, as far as \<^verbatim>\<open>get_utterances_entities\<close> reads it:
  \<^verbatim>\<open>dataset[ENTITIES]\<close> maps an entity name to its data, which carries
  \<^verbatim>\<open>USE_SYNONYMS\<close> and the list \<^verbatim>\<open>DATA\<close> of entries with \<^verbatim>\<open>VALUE\<close> and \<^verbatim>\<open>SYNONYMS\<close>.
\<close>

record entity_entry =
  ent_value :: string
  ent_synonyms :: "string list"

record entity_data =
  use_synonyms :: bool
  ent_data :: "entity_entry list"

record dataset =
  ds_entities :: "(string \<times> entity_data) list"

text \<open>
  The collaborators that the module imports and that are not part of it: the light
  tokenizer, the normalizer and stemmer, the language resources, the n-gram extractor
  (only the \<^verbatim>\<open>NGRAM\<close> text of each n-gram is read), the builtin-entity predicate,
  \<^verbatim>\<open>Language.from_iso_code\<close>, \<^verbatim>\<open>Language.EN\<close>, \<^verbatim>\<open>unicode.lower\<close>, and from scikit-learn
  \<^verbatim>\<open>TfidfVectorizer.fit_transform\<close> (which yields the vocabulary, the diagonal of the IDF
  matrix and the weighted matrix), \<^verbatim>\<open>TfidfVectorizer.transform\<close> on a fitted vectorizer,
  and \<^verbatim>\<open>chi2\<close> (only its p-values are read). They are parameters of every function.
  A matrix is the list of its rows; a vocabulary lists its (term, index) items.

  One more parameter belongs to the Python runtime: \<open>set_iteration env k s\<close> is the order
  in which Python iterates the set \<open>s\<close> of entity names that the index of a Featurizer
  stores under the key \<open>k\<close>. The language does not specify it: it depends on the hashes
  and on how the set object was built, so two sets with the same elements may iterate
  differently.
\<close>

record resources =
  tokenize_light :: "string \<Rightarrow> Language \<Rightarrow> string list"
  normalize :: "string \<Rightarrow> string"
  stem :: "string \<Rightarrow> Language \<Rightarrow> string"
  get_stems :: "Language set"
  get_stop_words :: "Language \<Rightarrow> string set"
  get_word_clusters :: "Language \<Rightarrow> (string \<rightharpoonup> (string \<rightharpoonup> string))"
  get_all_ngrams :: "string list \<Rightarrow> string list"
  is_builtin_entity :: "string \<Rightarrow> bool"
  from_iso_code :: "string \<Rightarrow> py_error + Language"
  Language_EN :: Language
  lower :: "string \<Rightarrow> string"
  tfidf_fit_transform :: "(string \<Rightarrow> string list) \<Rightarrow> string list
     \<Rightarrow> py_error + ((string \<times> nat) list \<times> real list \<times> real list list)"
  tfidf_transform :: "(string \<Rightarrow> string list) \<Rightarrow> (string \<times> nat) list \<Rightarrow> real list
     \<Rightarrow> string list \<Rightarrow> py_error + real list list"
  chi2 :: "real list list \<Rightarrow> int list \<Rightarrow> py_error + npfloat list"
  set_iteration :: "string \<Rightarrow> string fset \<Rightarrow> string list"

text \<open>
  A \<^verbatim>\<open>TfidfVectorizer\<close> built by \<^verbatim>\<open>default_tfidf_vectorizer\<close>: the language captured by
  its tokenizer closure, and the two fitted attributes \<^verbatim>\<open>vocabulary_\<close> (field \<open>vocabulary\<close>) and
  \<^verbatim>\<open>_tfidf._idf_diag\<close> (its diagonal), absent until the vectorizer is fitted.
\<close>

record TfidfVectorizer =
  tokenizer_language :: Language
  vocabulary :: "(string \<times> nat) list option"
  idf_diag :: "real list option"

text \<open>
  The attributes of a \<^verbatim>\<open>Featurizer\<close>. \<^verbatim>\<open>best_features\<close> and the entity index default to
  \<^verbatim>\<open>None\<close>. A Python set of entity names is a finite set; the order in which it is
  iterated is \<open>set_iteration\<close> of the collaborators.
\<close>

record Featurizer =
  language :: Language
  tfidf_vectorizer :: TfidfVectorizer
  best_features :: "nat list option"
  pvalue_threshold :: real
  entity_utterances_to_entity_names :: "(string \<rightharpoonup> string fset) option"

text \<open>The nested map that \<^verbatim>\<open>to_dict\<close> produces and \<^verbatim>\<open>from_dict\<close> reads.\<close>

record vectorizer_dict =
  d_vocab :: "(string \<times> nat) list"
  d_idf_diag :: "real list"

record obj_dict =
  d_language_code :: string
  d_tfidf_vectorizer :: vectorizer_dict
  d_best_features :: "nat list option"
  d_pvalue_threshold :: real
  d_entity_utterances_to_entity_names :: "string \<rightharpoonup> string list"

text \<open>What \<^verbatim>\<open>fit\<close> returns: \<^verbatim>\<open>None\<close> or \<^verbatim>\<open>self\<close>.\<close>

datatype fit_return = ReturnNone | ReturnSelf

section \<open>Query preprocessing\<close>

text \<open>\<^verbatim>\<open>sep.join(xs)\<close>.\<close>

fun str_join :: "string \<Rightarrow> string list \<Rightarrow> string" where
  "str_join sep [] = []"
| "str_join sep [x] = x"
| "str_join sep (x # y # ys) = x @ sep @ str_join sep (y # ys)"

definition default_tfidf_vectorizer :: "Language \<Rightarrow> TfidfVectorizer" where
  "default_tfidf_vectorizer lang =
     \<lparr>tokenizer_language = lang, vocabulary = None, idf_diag = None\<rparr>"

definition entity_name_to_feature :: "resources \<Rightarrow> string \<Rightarrow> string" where
  "entity_name_to_feature env entity_name =
     ''entityfeature'' @ concat (tokenize_light env entity_name (Language_EN env))"

definition normalize_stem :: "resources \<Rightarrow> string \<Rightarrow> Language \<Rightarrow> string" where
  "normalize_stem env text lang =
     (let normalized_stemmed = normalize env text
      in if lang \<in> get_stems env then stem env normalized_stemmed lang
         else normalized_stemmed)"

text \<open>The module-level constant \<^verbatim>\<open>CLUSTER_USED_PER_LANGUAGES = {}\<close>.\<close>

definition CLUSTER_USED_PER_LANGUAGES :: "Language \<rightharpoonup> string" where
  "CLUSTER_USED_PER_LANGUAGES = Map.empty"

text \<open>
  \<^verbatim>\<open>get_word_cluster_features\<close>: no cluster name (or an empty one) gives no features;
  otherwise every n-gram is looked up, lower-cased, in the cluster table of the language
  (\<^verbatim>\<open>get_word_clusters(language)[cluster_name]\<close> raises KeyError when the table is
  missing), and a non-empty cluster is kept.
\<close>

fun cluster_loop :: "resources \<Rightarrow> Language \<Rightarrow> string \<Rightarrow> string list \<Rightarrow> py_error + string list" where
  "cluster_loop env lang cluster_name [] = Inr []"
| "cluster_loop env lang cluster_name (ngram # ngrams) =
     (case get_word_clusters env lang cluster_name of
        None \<Rightarrow> Inl KeyError
      | Some table \<Rightarrow>
          (case cluster_loop env lang cluster_name ngrams of
             Inl e \<Rightarrow> Inl e
           | Inr rest \<Rightarrow>
               (case table (lower env ngram) of
                  None \<Rightarrow> Inr rest
                | Some cluster \<Rightarrow> if cluster = [] then Inr rest else Inr (cluster # rest))))"

definition get_word_cluster_features :: "resources \<Rightarrow> string list \<Rightarrow> Language \<Rightarrow> py_error + string list" where
  "get_word_cluster_features env query_tokens lang =
     (case CLUSTER_USED_PER_LANGUAGES lang of
        None \<Rightarrow> Inr []
      | Some cluster_name \<Rightarrow>
          if cluster_name = [] then Inr []
          else cluster_loop env lang cluster_name (get_all_ngrams env query_tokens))"

text \<open>
  \<^verbatim>\<open>get_dataset_entities_features\<close>: for every n-gram the names that the index gives for
  it, each turned into a feature token. The index is the Featurizer's attribute, so it
  may be \<^verbatim>\<open>None\<close>: then \<^verbatim>\<open>.get\<close> raises AttributeError at the first n-gram.
\<close>

definition get_dataset_entities_features ::
  "resources \<Rightarrow> string list \<Rightarrow> (string \<rightharpoonup> string fset) option \<Rightarrow> py_error + string list" where
  "get_dataset_entities_features env normalized_stemmed_tokens index =
     (let ngrams = get_all_ngrams env normalized_stemmed_tokens
      in case index of
           None \<Rightarrow> if ngrams = [] then Inr [] else Inl AttributeError
         | Some m \<Rightarrow>
             Inr (concat (map (\<lambda>ngram. map (entity_name_to_feature env)
                    (case m ngram of None \<Rightarrow> [] | Some names \<Rightarrow> set_iteration env ngram names))
                  ngrams)))"

definition preprocess_query ::
  "resources \<Rightarrow> string \<Rightarrow> Language \<Rightarrow> (string \<rightharpoonup> string fset) option \<Rightarrow> py_error + string" where
  "preprocess_query env query lang index =
     (let query_tokens = tokenize_light env query lang
      in case get_word_cluster_features env query_tokens lang of
           Inl e \<Rightarrow> Inl e
         | Inr word_clusters_features \<Rightarrow>
            (let normalized_stemmed_tokens = map (\<lambda>t. normalize_stem env t lang) query_tokens
             in case get_dataset_entities_features env normalized_stemmed_tokens index of
                  Inl e \<Rightarrow> Inl e
                | Inr entities_features \<Rightarrow>
                   (let features = str_join (default_sep lang) normalized_stemmed_tokens;
                        features1 = (if length entities_features \<noteq> 0
                                     then features @ '' '' @ str_join '' '' entities_features
                                     else features);
                        features2 = (if length word_clusters_features \<noteq> 0
                                     then features1 @ '' '' @ str_join '' '' word_clusters_features
                                     else features1)
                    in Inr features2)))"

section \<open>The entity index\<close>

text \<open>
  \<^verbatim>\<open>entities_utterances[u].add(entity_name)\<close> on a \<^verbatim>\<open>defaultdict(set)\<close>, the dictionary
  kept as the list of its items.
\<close>

fun dict_add :: "string \<Rightarrow> string \<Rightarrow> (string \<times> string fset) list \<Rightarrow> (string \<times> string fset) list" where
  "dict_add u entity_name [] = [(u, {|entity_name|})]"
| "dict_add u entity_name ((k, s) # d) =
     (if k = u then (k, finsert entity_name s) # d else (k, s) # dict_add u entity_name d)"

definition entity_utterances :: "entity_data \<Rightarrow> string list" where
  "entity_utterances ed =
     (if use_synonyms ed
      then concat (map (\<lambda>ent. ent_value ent # ent_synonyms ent) (ent_data ed))
      else map ent_value (ent_data ed))"

text \<open>
  The body of the loop of \<^verbatim>\<open>get_utterances_entities\<close> over the entities of the dataset:
  a builtin entity is skipped, and every utterance of another entity records its name.
\<close>

definition add_entity ::
  "resources \<Rightarrow> string \<times> entity_data \<Rightarrow> (string \<times> string fset) list \<Rightarrow> (string \<times> string fset) list" where
  "add_entity env = (\<lambda>(entity_name, ed) entities_utterances.
     if is_builtin_entity env entity_name then entities_utterances
     else fold (\<lambda>u d. dict_add u entity_name d) (entity_utterances ed) entities_utterances)"

definition get_utterances_entities :: "resources \<Rightarrow> dataset \<Rightarrow> (string \<times> string fset) list" where
  "get_utterances_entities env ds = fold (add_entity env) (ds_entities ds) []"

section \<open>The Featurizer\<close>

definition Featurizer_init ::
  "Language \<Rightarrow> TfidfVectorizer option \<Rightarrow> nat list option \<Rightarrow> (string \<rightharpoonup> string fset) option
     \<Rightarrow> real \<Rightarrow> Featurizer" where
  "Featurizer_init lang vectorizer best index threshold =
     \<lparr>language = lang,
      tfidf_vectorizer = (case vectorizer of None \<Rightarrow> default_tfidf_vectorizer lang | Some v \<Rightarrow> v),
      best_features = best,
      pvalue_threshold = threshold,
      entity_utterances_to_entity_names = index\<rparr>"

text \<open>\<^verbatim>\<open>preprocess_queries\<close>: the loop stops at the first query that raises.\<close>

fun preprocess_loop ::
  "resources \<Rightarrow> Language \<Rightarrow> (string \<rightharpoonup> string fset) option \<Rightarrow> string list \<Rightarrow> py_error + string list" where
  "preprocess_loop env lang index [] = Inr []"
| "preprocess_loop env lang index (q # qs) =
     (case preprocess_query env q lang index of
        Inl e \<Rightarrow> Inl e
      | Inr processed_query \<Rightarrow>
          (case preprocess_loop env lang index qs of
             Inl e \<Rightarrow> Inl e
           | Inr rest \<Rightarrow> Inr (processed_query # rest)))"

definition preprocess_queries :: "resources \<Rightarrow> Featurizer \<Rightarrow> string list \<Rightarrow> py_error + string list" where
  "preprocess_queries env self queries =
     preprocess_loop env (language self) (entity_utterances_to_entity_names self) queries"

text \<open>
  Lines 139 to 143 of \<^verbatim>\<open>fit\<close>: the index of the dataset, re-keyed by the normalized and
  stemmed utterance; the sets of utterances that share a key are united. \<open>names_of\<close> reads
  an entry of the \<^verbatim>\<open>defaultdict(set)\<close>: the empty set for a key not yet present.
\<close>

definition names_of :: "string fset option \<Rightarrow> string fset" where
  "names_of v = (case v of None \<Rightarrow> {||} | Some s \<Rightarrow> s)"

definition rekey ::
  "resources \<Rightarrow> Language \<Rightarrow> string \<times> string fset \<Rightarrow> (string \<rightharpoonup> string fset) \<Rightarrow> (string \<rightharpoonup> string fset)" where
  "rekey env lang = (\<lambda>(u, entities_names) entities.
     let key = normalize_stem env u lang
     in entities(key \<mapsto> names_of (entities key) |\<union>| entities_names))"

definition fit_entities :: "resources \<Rightarrow> Language \<Rightarrow> dataset \<Rightarrow> (string \<rightharpoonup> string fset)" where
  "fit_entities env lang ds = fold (rekey env lang) (get_utterances_entities env ds) Map.empty"

text \<open>Lines 147 and 148: every query joins to the empty string.\<close>

definition all_queries_empty :: "resources \<Rightarrow> Language \<Rightarrow> string list \<Rightarrow> bool" where
  "all_queries_empty env lang queries =
     list_all (\<lambda>q. length (concat (tokenize_light env q lang)) = 0) queries"

text \<open>Lines 154 and 155: the vocabulary inverted, index to term.\<close>

definition list_index_words :: "(string \<times> nat) list \<Rightarrow> (nat \<rightharpoonup> string)" where
  "list_index_words vocab =
     fold (\<lambda>x m. case map_of vocab x of None \<Rightarrow> m | Some i \<Rightarrow> m(i \<mapsto> x))
          (map fst vocab) Map.empty"

text \<open>
  Lines 160 to 164: the indices whose p-value is below the threshold, and when there is
  none, the indices whose p-value is the minimum. \<^verbatim>\<open>pval.min()\<close> is evaluated once per
  element, so never on an empty array.
\<close>

definition select_pvalues :: "npfloat list \<Rightarrow> real \<Rightarrow> nat list" where
  "select_pvalues pval threshold =
     (let best = map fst (filter (\<lambda>(i, v). np_less v threshold) (enumerate 0 pval))
      in if length best = 0
         then map fst (filter (\<lambda>(idx, val). np_eq val (np_min pval)) (enumerate 0 pval))
         else best)"

text \<open>
  Lines 166 to 168: the dictionary \<^verbatim>\<open>feature_names\<close>, as the list of its items
  (index, word, p-value); \<^verbatim>\<open>list_index_words[i]\<close> raises KeyError on an index that
  the vocabulary does not have.
\<close>

definition feature_names_of ::
  "(nat \<rightharpoonup> string) \<Rightarrow> npfloat list \<Rightarrow> nat list \<Rightarrow> py_error + (nat \<times> string \<times> npfloat) list" where
  "feature_names_of index_words pval best =
     (if list_ex (\<lambda>i. index_words i = None) best then Inl KeyError
      else Inr (map (\<lambda>i. (i, the (index_words i), pval ! i)) best))"

text \<open>
  Lines 170 to 173: every stop word of \<^verbatim>\<open>feature_names\<close> whose p-value is above half
  the threshold is removed from \<^verbatim>\<open>best_features\<close>.
\<close>

definition demote_stop_words ::
  "string set \<Rightarrow> real \<Rightarrow> (nat \<times> string \<times> npfloat) list \<Rightarrow> nat list \<Rightarrow> nat list" where
  "demote_stop_words stop_words threshold feature_names best =
     fold (\<lambda>(feat, word, p) best'.
             if word \<in> stop_words
             then (if np_greater p (threshold / 2) then remove1 feat best' else best')
             else best')
          feature_names best"

text \<open>
  \<^verbatim>\<open>fit\<close> mutates \<^verbatim>\<open>self\<close> and returns \<^verbatim>\<open>None\<close> or \<^verbatim>\<open>self\<close>, or raises what a
  collaborator raises: the result is the Featurizer as the call leaves it, with what was
  returned or raised.

  Lines 150 to 159: the queries are preprocessed, the vectorizer is fitted on them (which
  stores its vocabulary and IDF diagonal) and the chi-squared test gives the p-values.
\<close>

definition fit_pvalues ::
  "resources \<Rightarrow> Featurizer \<Rightarrow> string list \<Rightarrow> int list
     \<Rightarrow> Featurizer \<times> (py_error + ((string \<times> nat) list \<times> npfloat list))" where
  "fit_pvalues env self queries y =
     (case preprocess_queries env self queries of
        Inl e \<Rightarrow> (self, Inl e)
      | Inr preprocessed_queries \<Rightarrow>
         (case tfidf_fit_transform env
                 (\<lambda>x. tokenize_light env x (tokenizer_language (tfidf_vectorizer self)))
                 preprocessed_queries of
            Inl e \<Rightarrow> (self, Inl e)
          | Inr (vocab, idf, X_train_tfidf) \<Rightarrow>
             (let self2 = self\<lparr>tfidf_vectorizer :=
                            (tfidf_vectorizer self)\<lparr>vocabulary := Some vocab,
                                                     idf_diag := Some idf\<rparr>\<rparr>
              in case chi2 env X_train_tfidf y of
                   Inl e \<Rightarrow> (self2, Inl e)
                 | Inr pval \<Rightarrow> (self2, Inr (vocab, pval)))))"

definition fit ::
  "resources \<Rightarrow> Featurizer \<Rightarrow> dataset \<Rightarrow> string list \<Rightarrow> int list \<Rightarrow> Featurizer \<times> (py_error + fit_return)" where
  "fit env self ds queries y =
     (let self1 = self\<lparr>entity_utterances_to_entity_names :=
                        Some (fit_entities env (language self) ds)\<rparr>
      in if all_queries_empty env (language self) queries then (self1, Inr ReturnNone)
         else
          (case fit_pvalues env self1 queries y of
             (self2, Inl e) \<Rightarrow> (self2, Inl e)
           | (self2, Inr (vocab, pval)) \<Rightarrow>
              (let index_words = list_index_words vocab;
                   stop_words = get_stop_words env (language self);
                   best = select_pvalues pval (pvalue_threshold self);
                   self3 = self2\<lparr>best_features := Some best\<rparr>
               in case feature_names_of index_words pval best of
                    Inl e \<Rightarrow> (self3, Inl e)
                  | Inr feature_names \<Rightarrow>
                      (self3\<lparr>best_features :=
                          Some (demote_stop_words stop_words (pvalue_threshold self)
                                  feature_names best)\<rparr>,
                       Inr ReturnSelf))))"

text \<open>
  \<^verbatim>\<open>TfidfVectorizer.transform\<close>: scikit-learn raises NotFittedError when the fitted
  attributes are absent.
\<close>

definition vectorizer_transform :: "resources \<Rightarrow> TfidfVectorizer \<Rightarrow> string list \<Rightarrow> py_error + real list list" where
  "vectorizer_transform env v docs =
     (case vocabulary v of
        None \<Rightarrow> Inl NotFittedError
      | Some vocab \<Rightarrow>
          (case idf_diag v of
             None \<Rightarrow> Inl NotFittedError
           | Some idf \<Rightarrow>
               tfidf_transform env (\<lambda>x. tokenize_light env x (tokenizer_language v))
                 vocab idf docs))"

text \<open>
  \<^verbatim>\<open>X[:, best_features]\<close>: the listed columns of every row; an index outside the row, or
  \<^verbatim>\<open>None\<close> for the list, is an IndexError.
\<close>

definition select_columns :: "real list list \<Rightarrow> nat list option \<Rightarrow> py_error + real list list" where
  "select_columns X best =
     (case best of
        None \<Rightarrow> Inl IndexError
      | Some js \<Rightarrow>
          if list_all (\<lambda>row. list_all (\<lambda>j. j < length row) js) X
          then Inr (map (\<lambda>row. map (\<lambda>j. row ! j) js) X)
          else Inl IndexError)"

definition transform :: "resources \<Rightarrow> Featurizer \<Rightarrow> string list \<Rightarrow> py_error + real list list" where
  "transform env self queries =
     (case preprocess_queries env self queries of
        Inl e \<Rightarrow> Inl e
      | Inr preprocessed_queries \<Rightarrow>
          (case vectorizer_transform env (tfidf_vectorizer self) preprocessed_queries of
             Inl e \<Rightarrow> Inl e
           | Inr X_train_tfidf \<Rightarrow> select_columns X_train_tfidf (best_features self)))"

text \<open>
  \<^verbatim>\<open>fit_transform\<close> calls \<^verbatim>\<open>transform\<close> on what \<^verbatim>\<open>fit\<close> returned; on \<^verbatim>\<open>None\<close> the
  attribute lookup raises AttributeError.
\<close>

definition fit_transform ::
  "resources \<Rightarrow> Featurizer \<Rightarrow> dataset \<Rightarrow> string list \<Rightarrow> int list
     \<Rightarrow> Featurizer \<times> (py_error + real list list)" where
  "fit_transform env self ds queries y =
     (case fit env self ds queries y of
        (self', Inl e) \<Rightarrow> (self', Inl e)
      | (self', Inr ReturnNone) \<Rightarrow> (self', Inl AttributeError)
      | (self', Inr ReturnSelf) \<Rightarrow> (self', transform env self' queries))"

section \<open>Serialization\<close>

text \<open>
  \<^verbatim>\<open>to_dict\<close> reads \<^verbatim>\<open>vocabulary_\<close> and \<^verbatim>\<open>_idf_diag\<close> of the vectorizer and iterates the
  entity index: AttributeError when one of them is absent. \<^verbatim>\<open>list(v)\<close> lists a set of
  names in its iteration order.
\<close>

definition to_dict :: "resources \<Rightarrow> Featurizer \<Rightarrow> py_error + obj_dict" where
  "to_dict env self =
     (case vocabulary (tfidf_vectorizer self) of
        None \<Rightarrow> Inl AttributeError
      | Some vocab \<Rightarrow>
          (case idf_diag (tfidf_vectorizer self) of
             None \<Rightarrow> Inl AttributeError
           | Some idf \<Rightarrow>
               (case entity_utterances_to_entity_names self of
                  None \<Rightarrow> Inl AttributeError
                | Some index \<Rightarrow>
                    Inr \<lparr>d_language_code = iso_code (language self),
                         d_tfidf_vectorizer = \<lparr>d_vocab = vocab, d_idf_diag = idf\<rparr>,
                         d_best_features = best_features self,
                         d_pvalue_threshold = pvalue_threshold self,
                         d_entity_utterances_to_entity_names =
                           (\<lambda>k. map_option (set_iteration env k) (index k))\<rparr>)))"

definition deserialize_tfidf_vectorizer :: "vectorizer_dict \<Rightarrow> Language \<Rightarrow> TfidfVectorizer" where
  "deserialize_tfidf_vectorizer vd lang =
     (default_tfidf_vectorizer lang)\<lparr>vocabulary := Some (d_vocab vd),
                                     idf_diag := Some (d_idf_diag vd)\<rparr>"

definition from_dict :: "resources \<Rightarrow> obj_dict \<Rightarrow> py_error + Featurizer" where
  "from_dict env d =
     (case from_iso_code env (d_language_code d) of
        Inl e \<Rightarrow> Inl e
      | Inr lang \<Rightarrow>
          (let vectorizer = deserialize_tfidf_vectorizer (d_tfidf_vectorizer d) lang;
               index = (\<lambda>k. map_option fset_of_list (d_entity_utterances_to_entity_names d k))
           in Inr (Featurizer_init lang (Some vectorizer) (d_best_features d) (Some index)
                     (d_pvalue_threshold d))))"

section \<open>The Term-Weight Vectorizer as specified\<close>

text \<open>
  Modelled from the spec: the document frequency of a term, for the fit of the
  Term-Weight Vectorizer (scikit-learn's \<^verbatim>\<open>TfidfVectorizer\<close>, which is not under src/).
  Section 4.3: df is the document frequency of the term, the number of documents of the
  corpus that contain it, the documents being tokenized by the light tokenizer.
\<close>

definition document_frequency :: "(string \<Rightarrow> string list) \<Rightarrow> string list \<Rightarrow> string \<Rightarrow> nat" where
  "document_frequency tok corpus t = length (filter (\<lambda>doc. t \<in> set (tok doc)) corpus)"

text \<open>
  Modelled from the spec: the weight that the fit of the Term-Weight Vectorizer (not under
  src/) gives a term. Section 4.3: idf = ln((1+N)/(1+df)) + 1, where N is the size of
  the corpus and df the document frequency of the term.
\<close>

definition smoothed_idf :: "(string \<Rightarrow> string list) \<Rightarrow> string list \<Rightarrow> string \<Rightarrow> real" where
  "smoothed_idf tok corpus t =
     ln ((1 + real (length corpus)) / (1 + real (document_frequency tok corpus t))) + 1"

text \<open>
  Modelled from the spec: the normalization of a row of the weighted matrix of the
  Term-Weight Vectorizer (not under src/). Section 4.3: each row is L2-normalized.
\<close>

definition l2_normalize :: "real list \<Rightarrow> real list" where
  "l2_normalize row =
     (let norm = sqrt (sum_list (map (\<lambda>x. x * x) row))
      in if norm = 0 then row else map (\<lambda>x. x / norm) row)"

text \<open>
  Modelled from the spec: the fit of the Term-Weight Vectorizer (scikit-learn's
  \<^verbatim>\<open>TfidfVectorizer.fit_transform\<close>, not under src/). Section 4.3: every distinct term of
  the corpus gets a column index (here in the order of first occurrence; the spec leaves
  the order open), indices dense from 0; the IDF sequence is index-aligned with the
  vocabulary; a row of the matrix holds term frequency times IDF, L2-normalized.
\<close>

definition specified_fit_transform ::
  "(string \<Rightarrow> string list) \<Rightarrow> string list
     \<Rightarrow> py_error + ((string \<times> nat) list \<times> real list \<times> real list list)" where
  "specified_fit_transform tok corpus =
     (let terms = remdups (concat (map tok corpus));
          idf = map (smoothed_idf tok corpus) terms
      in Inr (zip terms [0..<length terms], idf,
              map (\<lambda>doc. l2_normalize
                     (map (\<lambda>t. real (count_list (tok doc) t) * smoothed_idf tok corpus t) terms))
                  corpus))"

section \<open>Sample collaborators and inputs\<close>

text \<open>
  A concrete instance of the collaborators, on which the functions can be evaluated: a
  tokenizer that splits at spaces, an identity normalizer, no stemming, the stop words
  "the" and "a", all the contiguous n-grams, the entity names under \<^verbatim>\<open>snips/\<close> as
  builtin, one language, sets iterated in sorted order. What scikit-learn gives for the call under evaluation
  (the fitted vocabulary, IDF diagonal and matrix; the p-values) is handed in.
\<close>

fun sample_tokens :: "string \<Rightarrow> string \<Rightarrow> string list" where
  "sample_tokens cur [] = (if cur = [] then [] else [cur])"
| "sample_tokens cur (c # cs) =
     (if c = CHR '' '' then (if cur = [] then sample_tokens [] cs else cur # sample_tokens [] cs)
      else sample_tokens (cur @ [c]) cs)"

definition sample_ngrams :: "string list \<Rightarrow> string list" where
  "sample_ngrams ts =
     concat (map (\<lambda>i. map (\<lambda>n. str_join '' '' (take n (drop i ts))) [1..<Suc (length ts - i)])
               [0..<length ts])"

definition EN :: Language where
  "EN = \<lparr>iso_code = ''en'', default_sep = '' ''\<rparr>"

definition sample_resources ::
  "py_error + ((string \<times> nat) list \<times> real list \<times> real list list) \<Rightarrow> py_error + npfloat list
     \<Rightarrow> resources" where
  "sample_resources fitted pvalues =
     \<lparr>tokenize_light = (\<lambda>q lang. sample_tokens [] q),
      normalize = (\<lambda>s. s),
      stem = (\<lambda>s lang. s),
      get_stems = {},
      get_stop_words = (\<lambda>lang. {''the'', ''a''}),
      get_word_clusters = (\<lambda>lang. Map.empty),
      get_all_ngrams = sample_ngrams,
      is_builtin_entity = (\<lambda>name. take 6 name = ''snips/''),
      from_iso_code = (\<lambda>code. if code = ''en'' then Inr EN else Inl KeyError),
      Language_EN = EN,
      lower = (\<lambda>s. s),
      tfidf_fit_transform = (\<lambda>tok docs. fitted),
      tfidf_transform = (\<lambda>tok vocab idf docs.
         Inr (map (\<lambda>doc. map (\<lambda>(term, i). real (count_list (tok doc) term)) vocab) docs)),
      chi2 = (\<lambda>X y. pvalues),
      set_iteration = (\<lambda>k names. sorted_list_of_fset names)\<rparr>"

text \<open>
  The collaborators for the queries \<^verbatim>\<open>["the", "the"]\<close> with the labels \<^verbatim>\<open>[0, 1]\<close>:
  scikit-learn fits the vocabulary \<^verbatim>\<open>{"the": 0}\<close> with IDF 1 and the matrix \<^verbatim>\<open>[[1], [1]]\<close>,
  and the chi-squared statistic of the only column is 0, so its p-value is 1.
\<close>

definition sample_env :: resources where
  "sample_env = sample_resources (Inr ([(''the'', 0)], [1], [[1], [1]])) (Inr [Val 1])"

definition sample_featurizer :: Featurizer where
  "sample_featurizer = Featurizer_init EN None None None 0.4"

definition sample_dataset :: dataset where
  "sample_dataset = \<lparr>ds_entities =
     [(''city'', \<lparr>use_synonyms = True,
                  ent_data = [\<lparr>ent_value = ''paris'', ent_synonyms = [''Paris'']\<rparr>]\<rparr>),
      (''snips/number'', \<lparr>use_synonyms = False, ent_data = []\<rparr>)]\<rparr>"

definition mismatched_dict :: obj_dict where
  "mismatched_dict =
     \<lparr>d_language_code = ''en'',
      d_tfidf_vectorizer = \<lparr>d_vocab = [(''a'', 0)], d_idf_diag = [1, 2]\<rparr>,
      d_best_features = Some [0],
      d_pvalue_threshold = 0.4,
      d_entity_utterances_to_entity_names = Map.empty\<rparr>"

text \<open>
  The collaborators for two queries over the terms "a", "flight" and "the", with
  p-values 0.36, 0.3 and 0.04: at the default threshold 0.4 the stop word "a" is at
  nine tenths of the threshold and the stop word "the" at one tenth.
\<close>

definition demotion_vocab :: "(string \<times> nat) list" where
  "demotion_vocab = [(''a'', 0), (''flight'', 1), (''the'', 2)]"

definition demotion_pval :: "npfloat list" where
  "demotion_pval = [Val 0.36, Val 0.3, Val 0.04]"

definition demotion_env :: resources where
  "demotion_env = sample_resources
     (Inr (demotion_vocab, [1, 1, 1], [[1, 1, 0], [0, 1, 1]])) (Inr demotion_pval)"

text \<open>
  The collaborators for the queries \<^verbatim>\<open>["book flight", "play music"]\<close> with the labels
  \<^verbatim>\<open>[0, 0]\<close>: four terms, each in one of the two documents, and a single class, for
  which the chi-squared test has no degree of freedom and every p-value is NaN.
\<close>

definition single_class_vocab :: "(string \<times> nat) list" where
  "single_class_vocab = [(''book'', 0), (''flight'', 1), (''music'', 2), (''play'', 3)]"

definition single_class_pval :: "npfloat list" where
  "single_class_pval = [NaN, NaN, NaN, NaN]"

definition single_class_env :: resources where
  "single_class_env = sample_resources
     (Inr (single_class_vocab,
           [ln (3 / 2) + 1, ln (3 / 2) + 1, ln (3 / 2) + 1, ln (3 / 2) + 1],
           [[1 / sqrt 2, 1 / sqrt 2, 0, 0], [0, 0, 1 / sqrt 2, 1 / sqrt 2]]))
     (Inr single_class_pval)"

text \<open>A dataset without entities.\<close>

definition empty_dataset :: dataset where
  "empty_dataset = \<lparr>ds_entities = []\<rparr>"

text \<open>The sample collaborators with the vectorizer that fits as specified.\<close>

definition specified_env :: resources where
  "specified_env = sample_env\<lparr>tfidf_fit_transform := specified_fit_transform\<rparr>"

text \<open>
  A second language, whose tokenizer gives a whole query as one token, and the
  collaborators for the queries \<^verbatim>\<open>["a b", "a b"]\<close> with the labels \<^verbatim>\<open>[0, 1]\<close>, fitted by a
  vectorizer that tokenizes in that language: the vocabulary \<^verbatim>\<open>{"a b": 0}\<close>, IDF 1, the
  matrix \<^verbatim>\<open>[[1], [1]]\<close> and the p-value 1. \<open>foreign_featurizer\<close> is a Featurizer of the
  first language that is constructed with a vectorizer of the second, and
  \<open>foreign_fitted\<close> is what \<^verbatim>\<open>fit\<close> makes of it.
\<close>

definition ZZ :: Language where
  "ZZ = \<lparr>iso_code = ''zz'', default_sep = '' ''\<rparr>"

definition bilingual_env :: resources where
  "bilingual_env =
     (sample_resources (Inr ([(''a b'', 0)], [1], [[1], [1]])) (Inr [Val 1]))
       \<lparr>tokenize_light :=
          (\<lambda>q lang. if lang = ZZ then (if q = [] then [] else [q]) else sample_tokens [] q)\<rparr>"

definition foreign_featurizer :: Featurizer where
  "foreign_featurizer = Featurizer_init EN (Some (default_tfidf_vectorizer ZZ)) None None 0.4"

definition foreign_fitted :: Featurizer where
  "foreign_fitted =
     \<lparr>language = EN,
      tfidf_vectorizer = \<lparr>tokenizer_language = ZZ, vocabulary = Some [(''a b'', 0)],
                          idf_diag = Some [1]\<rparr>,
      best_features = Some [0],
      pvalue_threshold = 0.4,
      entity_utterances_to_entity_names = Some Map.empty\<rparr>"

text \<open>Another order of iteration of the sets of names: the sorted order reversed.\<close>

definition reversed_iteration :: "string \<Rightarrow> string fset \<Rightarrow> string list" where
  "reversed_iteration k names = rev (sorted_list_of_fset names)"

section \<open>Specification-level sets\<close>

text \<open>
  The names of the entities that are not builtin and have \<open>u\<close> among their utterances:
  what \<^verbatim>\<open>get_utterances_entities\<close> is meant to record under \<open>u\<close>.
\<close>

definition entity_names_of :: "resources \<Rightarrow> (string \<times> entity_data) list \<Rightarrow> string \<Rightarrow> string set" where
  "entity_names_of env es u =
     {n. \<exists>ed. (n, ed) \<in> set es \<and> \<not> is_builtin_entity env n \<and> u \<in> set (entity_utterances ed)}"

section \<open>The entity index\<close>

lemma names_of_simps [simp]: "names_of None = {||}" "names_of (Some s) = s"
  by (simp_all add: names_of_def)

lemma map_of_dict_add:
  "map_of (dict_add u n d) = (map_of d)(u \<mapsto> finsert n (names_of (map_of d u)))"
  by (induction d) (auto simp: fun_eq_iff)

lemma keys_dict_add:
  "set (map fst (dict_add u n d)) = insert u (set (map fst d))"
  by (induction u n d rule: dict_add.induct) auto

lemma distinct_dict_add:
  "distinct (map fst d) \<Longrightarrow> distinct (map fst (dict_add u n d))"
proof (induction d)
  case Nil
  then show ?case by simp
next
  case (Cons a d)
  show ?case
  proof (cases a)
    case (Pair k s)
    with Cons keys_dict_add[of u n d] show ?thesis by auto
  qed
qed

lemma map_of_fold_dict_add:
  "map_of (fold (\<lambda>u d. dict_add u n d) us d) k =
     (if k \<in> set us then Some (finsert n (names_of (map_of d k))) else map_of d k)"
  by (induction us arbitrary: d) (auto simp: map_of_dict_add)

lemma distinct_fold_dict_add:
  "distinct (map fst d) \<Longrightarrow> distinct (map fst (fold (\<lambda>u d. dict_add u n d) us d))"
  by (induction us arbitrary: d) (auto simp: distinct_dict_add)

lemma entity_names_of_Cons:
  "entity_names_of env ((n, ed) # es) u =
     (if \<not> is_builtin_entity env n \<and> u \<in> set (entity_utterances ed) then {n} else {}) \<union> entity_names_of env es u"
  by (auto simp: entity_names_of_def)

lemma fold_add_entity:
  "fset (names_of (map_of (fold (add_entity env) es d) u)) =
     fset (names_of (map_of d u)) \<union> entity_names_of env es u
   \<and> (map_of (fold (add_entity env) es d) u = None \<longleftrightarrow> map_of d u = None \<and> entity_names_of env es u = {})
   \<and> (distinct (map fst d) \<longrightarrow> distinct (map fst (fold (add_entity env) es d)))"
proof (induction es arbitrary: d)
  case Nil
  then show ?case by (simp add: entity_names_of_def)
next
  case (Cons a es)
  obtain n ed where a: "a = (n, ed)" by (cases a)
  let ?d' = "add_entity env (n, ed) d"
  have 1: "fset (names_of (map_of ?d' u)) =
      fset (names_of (map_of d u)) \<union> (if \<not> is_builtin_entity env n \<and> u \<in> set (entity_utterances ed) then {n} else {})"
    by (simp add: add_entity_def map_of_fold_dict_add)
  have 2: "map_of ?d' u = None \<longleftrightarrow> map_of d u = None \<and> \<not> (\<not> is_builtin_entity env n \<and> u \<in> set (entity_utterances ed))"
    by (simp add: add_entity_def map_of_fold_dict_add)
  have 3: "distinct (map fst d) \<longrightarrow> distinct (map fst ?d')"
    by (simp add: add_entity_def distinct_fold_dict_add)
  from Cons.IH[of ?d'] 1 2 3 show ?case
    unfolding a entity_names_of_Cons by auto
qed


lemma get_utterances_entities_char:
  "distinct (map fst (get_utterances_entities env ds))"
  "(u, s) \<in> set (get_utterances_entities env ds) \<longleftrightarrow>
      s \<noteq> {||} \<and> fset s = entity_names_of env (ds_entities ds) u"
proof -
  let ?d = "get_utterances_entities env ds"
  note F = fold_add_entity[of env "ds_entities ds" "[]", folded get_utterances_entities_def]
  show dist: "distinct (map fst ?d)" using F[of u] by simp
  have "(u, s) \<in> set ?d \<longleftrightarrow> map_of ?d u = Some s"
    using dist by simp
  also have "\<dots> \<longleftrightarrow> s \<noteq> {||} \<and> fset s = entity_names_of env (ds_entities ds) u"
  proof
    assume h: "map_of ?d u = Some s"
    with F[of u] show "s \<noteq> {||} \<and> fset s = entity_names_of env (ds_entities ds) u"
      by auto
  next
    assume h: "s \<noteq> {||} \<and> fset s = entity_names_of env (ds_entities ds) u"
    then have "entity_names_of env (ds_entities ds) u \<noteq> {}" by auto
    with F[of u] obtain s' where s': "map_of ?d u = Some s'" by auto
    with F[of u] have "fset s' = entity_names_of env (ds_entities ds) u" by simp
    with h have "fset s' = fset s" by simp
    then have "s' = s" by (simp only: fset_inject)
    with s' show "map_of ?d u = Some s" by simp
  qed
  finally show "(u, s) \<in> set ?d \<longleftrightarrow> s \<noteq> {||} \<and> fset s = entity_names_of env (ds_entities ds) u" .
qed

lemma fold_rekey:
  "fset (names_of (fold (rekey env lang) d m k)) =
     fset (names_of (m k)) \<union> {n. \<exists>u s. (u, s) \<in> set d \<and> normalize_stem env u lang = k \<and> n |\<in>| s}
   \<and> (fold (rekey env lang) d m k = None \<longleftrightarrow> m k = None \<and> (\<forall>(u, s)\<in>set d. normalize_stem env u lang \<noteq> k))"
proof (induction d arbitrary: m)
  case Nil
  then show ?case by simp
next
  case (Cons a d)
  obtain u s where a: "a = (u, s)" by (cases a)
  let ?m' = "rekey env lang (u, s) m"
  have 1: "fset (names_of (?m' k)) = fset (names_of (m k)) \<union> (if normalize_stem env u lang = k then fset s else {})"
    by (auto simp: rekey_def Let_def names_of_def split: option.splits)
  have 2: "?m' k = None \<longleftrightarrow> m k = None \<and> normalize_stem env u lang \<noteq> k"
    by (auto simp: rekey_def Let_def)
  from Cons.IH[of ?m'] 1 2 show ?case unfolding a by auto
qed


lemma fit_entities_char:
  "fset (names_of (fit_entities env lang ds k)) =
     {n. \<exists>ed u. (n, ed) \<in> set (ds_entities ds) \<and> \<not> is_builtin_entity env n
            \<and> u \<in> set (entity_utterances ed) \<and> normalize_stem env u lang = k}"
  "fit_entities env lang ds k = None \<longleftrightarrow>
     \<not> (\<exists>n ed u. (n, ed) \<in> set (ds_entities ds) \<and> \<not> is_builtin_entity env n
            \<and> u \<in> set (entity_utterances ed) \<and> normalize_stem env u lang = k)"
proof -
  note R = fold_rekey[of env lang "get_utterances_entities env ds" Map.empty k, folded fit_entities_def]
  note G = get_utterances_entities_char(2)[of _ _ env ds]
  show "fset (names_of (fit_entities env lang ds k)) =
     {n. \<exists>ed u. (n, ed) \<in> set (ds_entities ds) \<and> \<not> is_builtin_entity env n
            \<and> u \<in> set (entity_utterances ed) \<and> normalize_stem env u lang = k}"
  proof -
    have "{n. \<exists>u s. (u, s) \<in> set (get_utterances_entities env ds) \<and> normalize_stem env u lang = k \<and> n |\<in>| s}
        = (\<Union>u\<in>{u. normalize_stem env u lang = k}. entity_names_of env (ds_entities ds) u)"
      (is "?L = ?R")
    proof (rule set_eqI)
      fix n
      have "n \<in> ?L \<longleftrightarrow> (\<exists>u s. (u, s) \<in> set (get_utterances_entities env ds) \<and> normalize_stem env u lang = k \<and> n \<in> fset s)"
        by simp
      also have "\<dots> \<longleftrightarrow> (\<exists>u. normalize_stem env u lang = k \<and> n \<in> entity_names_of env (ds_entities ds) u)"
      proof
        assume "\<exists>u s. (u, s) \<in> set (get_utterances_entities env ds) \<and> normalize_stem env u lang = k \<and> n \<in> fset s"
        then show "\<exists>u. normalize_stem env u lang = k \<and> n \<in> entity_names_of env (ds_entities ds) u"
          unfolding G by auto
      next
        assume "\<exists>u. normalize_stem env u lang = k \<and> n \<in> entity_names_of env (ds_entities ds) u"
        then obtain u where u: "normalize_stem env u lang = k" "n \<in> entity_names_of env (ds_entities ds) u"
          by blast
        from fold_add_entity[of env "ds_entities ds" "[]" u, folded get_utterances_entities_def] u(2)
        obtain s where s: "map_of (get_utterances_entities env ds) u = Some s"
          by auto
        with fold_add_entity[of env "ds_entities ds" "[]" u, folded get_utterances_entities_def]
        have "fset s = entity_names_of env (ds_entities ds) u" by simp
        moreover from s have "(u, s) \<in> set (get_utterances_entities env ds)" by (rule map_of_SomeD)
        ultimately show "\<exists>u s. (u, s) \<in> set (get_utterances_entities env ds) \<and> normalize_stem env u lang = k \<and> n \<in> fset s"
          using u by blast
      qed
      also have "\<dots> \<longleftrightarrow> n \<in> ?R" by auto
      finally show "n \<in> ?L \<longleftrightarrow> n \<in> ?R" .
    qed
    with R have "fset (names_of (fit_entities env lang ds k)) = ?R" by simp
    also have "?R = {n. \<exists>ed u. (n, ed) \<in> set (ds_entities ds) \<and> \<not> is_builtin_entity env n
            \<and> u \<in> set (entity_utterances ed) \<and> normalize_stem env u lang = k}"
      by (auto simp: entity_names_of_def)
    finally show ?thesis .
  qed
  show "fit_entities env lang ds k = None \<longleftrightarrow>
     \<not> (\<exists>n ed u. (n, ed) \<in> set (ds_entities ds) \<and> \<not> is_builtin_entity env n
            \<and> u \<in> set (entity_utterances ed) \<and> normalize_stem env u lang = k)"
  proof -
    have "(\<exists>u s. (u, s) \<in> set (get_utterances_entities env ds) \<and> normalize_stem env u lang = k)
        \<longleftrightarrow> (\<exists>u. entity_names_of env (ds_entities ds) u \<noteq> {} \<and> normalize_stem env u lang = k)"
    proof
      assume "\<exists>u s. (u, s) \<in> set (get_utterances_entities env ds) \<and> normalize_stem env u lang = k"
      then obtain u s where "s \<noteq> {||}" "fset s = entity_names_of env (ds_entities ds) u"
          "normalize_stem env u lang = k"
        unfolding G by blast
      then show "\<exists>u. entity_names_of env (ds_entities ds) u \<noteq> {} \<and> normalize_stem env u lang = k"
        by (metis bot_fset.rep_eq fset_inject)
    next
      assume "\<exists>u. entity_names_of env (ds_entities ds) u \<noteq> {} \<and> normalize_stem env u lang = k"
      then obtain u where u: "entity_names_of env (ds_entities ds) u \<noteq> {}" "normalize_stem env u lang = k"
        by blast
      from fold_add_entity[of env "ds_entities ds" "[]" u, folded get_utterances_entities_def] u(1)
      obtain s where "map_of (get_utterances_entities env ds) u = Some s" by auto
      then have "(u, s) \<in> set (get_utterances_entities env ds)" by (rule map_of_SomeD)
      with u(2) show "\<exists>u s. (u, s) \<in> set (get_utterances_entities env ds) \<and> normalize_stem env u lang = k"
        by blast
    qed
    moreover have "(\<exists>u. entity_names_of env (ds_entities ds) u \<noteq> {} \<and> normalize_stem env u lang = k)
        \<longleftrightarrow> (\<exists>n ed u. (n, ed) \<in> set (ds_entities ds) \<and> \<not> is_builtin_entity env n
            \<and> u \<in> set (entity_utterances ed) \<and> normalize_stem env u lang = k)"
      unfolding entity_names_of_def by blast
    moreover from R have "fit_entities env lang ds k = None \<longleftrightarrow>
        \<not> (\<exists>u s. (u, s) \<in> set (get_utterances_entities env ds) \<and> normalize_stem env u lang = k)"
      by auto
    ultimately show ?thesis by simp
  qed
qed

section \<open>The aborted fit\<close>

lemma concat_empty_iff: "length (concat xs) = 0 \<longleftrightarrow> (\<forall>t\<in>set xs. t = [])"
  by (induction xs) auto

lemma all_queries_empty_iff:
  "all_queries_empty env lang queries \<longleftrightarrow>
     (\<forall>q\<in>set queries. \<forall>t\<in>set (tokenize_light env q lang). t = [])"
  unfolding all_queries_empty_def list_all_iff by simp

lemma fit_aborted:
  "all_queries_empty env (language self) queries \<Longrightarrow>
   fit env self ds queries y =
     (self\<lparr>entity_utterances_to_entity_names := Some (fit_entities env (language self) ds)\<rparr>,
      Inr ReturnNone)"
  by (simp add: fit_def)

lemma sample_tokenize [simp]:
  "tokenize_light (sample_resources f p) q lang = sample_tokens [] q"
  by (simp add: sample_resources_def)

lemma sample_env_tokenize [simp]:
  "tokenize_light sample_env q lang = sample_tokens [] q"
  by (simp add: sample_env_def)

lemma sample_language [simp]: "language sample_featurizer = EN"
  by (simp add: sample_featurizer_def Featurizer_init_def)

text \<open>
  Claim C2. When every query tokenizes to tokens that are all empty (in particular to no
  token at all), \<^verbatim>\<open>fit\<close> returns \<^verbatim>\<open>None\<close> and raises nothing; the vectorizer and
  the selected features are what they were before the call.
\<close>

theorem fit_degenerate_returns_none:
  assumes "\<forall>q\<in>set queries. \<forall>t\<in>set (tokenize_light env q (language self)). t = []"
  shows "snd (fit env self ds queries y) = Inr ReturnNone
       \<and> tfidf_vectorizer (fst (fit env self ds queries y)) = tfidf_vectorizer self
       \<and> best_features (fst (fit env self ds queries y)) = best_features self"
  using assms by (simp add: fit_aborted all_queries_empty_iff)

theorem fit_degenerate_returns_none_witness:
  "tokenize_light sample_env '''' (language sample_featurizer) = []
   \<and> tokenize_light sample_env ''   '' (language sample_featurizer) = []
   \<and> snd (fit sample_env sample_featurizer sample_dataset ['''', ''   ''] [0, 1]) = Inr ReturnNone
   \<and> tfidf_vectorizer (fst (fit sample_env sample_featurizer sample_dataset ['''', ''   ''] [0, 1]))
       = tfidf_vectorizer sample_featurizer
   \<and> best_features (fst (fit sample_env sample_featurizer sample_dataset ['''', ''   ''] [0, 1]))
       = best_features sample_featurizer"
proof -
  have h: "\<forall>q\<in>set ['''', ''   '']. \<forall>t\<in>set (tokenize_light sample_env q (language sample_featurizer)). t = []"
    by simp
  have t: "tokenize_light sample_env '''' (language sample_featurizer) = []"
    "tokenize_light sample_env ''   '' (language sample_featurizer) = []"
    by simp_all
  from fit_degenerate_returns_none[OF h] t show ?thesis by blast
qed

text \<open>
  Claim C3. On the queries \<^verbatim>\<open>["", "   "]\<close>, for which \<^verbatim>\<open>fit\<close> returns \<^verbatim>\<open>None\<close>,
  \<^verbatim>\<open>fit_transform\<close> does not return a value: it raises AttributeError.
\<close>

theorem fit_transform_degenerate_raises:
  "snd (fit_transform sample_env sample_featurizer sample_dataset ['''', ''   ''] [0, 1])
     = Inl AttributeError"
  by (simp add: fit_transform_def fit_aborted all_queries_empty_iff)

lemma fit_transform_aborted:
  "all_queries_empty env (language self) queries \<Longrightarrow>
   snd (fit_transform env self ds queries y) = Inl AttributeError"
  by (simp add: fit_transform_def fit_aborted)

text \<open>
  Claim C10. When every query tokenizes to empty tokens, \<^verbatim>\<open>fit\<close> returns \<^verbatim>\<open>None\<close> and
  leaves a Featurizer that differs from the one it was called on in the entity index
  only. The new index maps a key \<open>k\<close> to the set of the names of the entities that are
  not builtin and have an utterance whose normalized and stemmed form is \<open>k\<close>, and has
  no entry for a key without such an entity; what the index held before plays no part.
\<close>

theorem fit_degenerate_rebuilds_entity_index:
  assumes "\<forall>q\<in>set queries. \<forall>t\<in>set (tokenize_light env q (language self)). t = []"
  shows "\<exists>index.
      fit env self ds queries y =
        (self\<lparr>entity_utterances_to_entity_names := Some index\<rparr>, Inr ReturnNone)
    \<and> (\<forall>k. fset (names_of (index k)) =
            {n. \<exists>ed u. (n, ed) \<in> set (ds_entities ds) \<and> \<not> is_builtin_entity env n
                  \<and> u \<in> set (entity_utterances ed)
                  \<and> normalize_stem env u (language self) = k})
    \<and> (\<forall>k. index k = None \<longleftrightarrow> names_of (index k) = {||})
    \<and> tfidf_vectorizer (fst (fit env self ds queries y)) = tfidf_vectorizer self
    \<and> best_features (fst (fit env self ds queries y)) = best_features self
    \<and> pvalue_threshold (fst (fit env self ds queries y)) = pvalue_threshold self"
proof -
  let ?index = "fit_entities env (language self) ds"
  from assms have ab: "all_queries_empty env (language self) queries"
    by (simp add: all_queries_empty_iff)
  have "?index k = None \<longleftrightarrow> names_of (?index k) = {||}" for k
  proof -
    have "names_of (?index k) = {||} \<longleftrightarrow> fset (names_of (?index k)) = {}"
      by (metis bot_fset.rep_eq fset_inject)
    then show ?thesis
      unfolding fit_entities_char by blast
  qed
  with fit_aborted[OF ab] fit_entities_char(1) show ?thesis
    by (intro exI[of _ ?index]) simp
qed

lemma sample_city:
  "(''city'', \<lparr>use_synonyms = True,
      ent_data = [\<lparr>ent_value = ''paris'', ent_synonyms = [''Paris'']\<rparr>]\<rparr>) \<in> set (ds_entities sample_dataset)"
  by (simp add: sample_dataset_def)

lemma sample_utterances:
  assumes "(n, ed) \<in> set (ds_entities sample_dataset)" and "u \<in> set (entity_utterances ed)"
  shows "n = ''city'' \<and> (u = ''paris'' \<or> u = ''Paris'')"
proof -
  from assms(1) have "(n = ''city'' \<and> entity_utterances ed = [''paris'', ''Paris''])
      \<or> entity_utterances ed = []"
    by (auto simp: sample_dataset_def entity_utterances_def)
  with assms(2) show ?thesis by auto
qed

theorem fit_degenerate_rebuilds_entity_index_witness:
  "tokenize_light sample_env '''' (language sample_featurizer) = []
   \<and> tokenize_light sample_env ''   '' (language sample_featurizer) = []
   \<and> snd (fit sample_env sample_featurizer sample_dataset ['''', ''   ''] [0, 1]) = Inr ReturnNone
   \<and> (\<exists>index. entity_utterances_to_entity_names
          (fst (fit sample_env sample_featurizer sample_dataset ['''', ''   ''] [0, 1])) = Some index
        \<and> fset (names_of (index ''paris'')) = {''city''}
        \<and> index ''london'' = None)
   \<and> entity_utterances_to_entity_names sample_featurizer = None"
proof -
  let ?env = sample_env
  have h: "\<forall>q\<in>set ['''', ''   '']. \<forall>t\<in>set (tokenize_light ?env q (language sample_featurizer)). t = []"
    by simp
  from fit_degenerate_rebuilds_entity_index[OF h, of sample_dataset "[0, 1]"]
  obtain index where
    f: "fit ?env sample_featurizer sample_dataset ['''', ''   ''] [0, 1] =
         (sample_featurizer\<lparr>entity_utterances_to_entity_names := Some index\<rparr>, Inr ReturnNone)"
    and c: "\<And>k. fset (names_of (index k)) =
            {n. \<exists>ed u. (n, ed) \<in> set (ds_entities sample_dataset) \<and> \<not> is_builtin_entity ?env n
                  \<and> u \<in> set (entity_utterances ed)
                  \<and> normalize_stem ?env u (language sample_featurizer) = k}"
    and n: "\<And>k. index k = None \<longleftrightarrow> names_of (index k) = {||}"
    by blast
  have ns: "normalize_stem ?env u lang = u" for u lang
    by (simp add: normalize_stem_def sample_env_def sample_resources_def)
  have bi: "\<not> is_builtin_entity ?env ''city''"
    by (simp add: sample_env_def sample_resources_def)
  have pu: "''paris'' \<in> set (entity_utterances \<lparr>use_synonyms = True,
      ent_data = [\<lparr>ent_value = ''paris'', ent_synonyms = [''Paris'']\<rparr>]\<rparr>)"
    by (simp add: entity_utterances_def)
  have 1: "fset (names_of (index ''paris'')) = {''city''}"
  proof
    show "fset (names_of (index ''paris'')) \<subseteq> {''city''}"
      unfolding c using sample_utterances by blast
    show "{''city''} \<subseteq> fset (names_of (index ''paris''))"
      unfolding c ns using sample_city bi pu by blast
  qed
  have "fset (names_of (index ''london'')) = {}"
  proof -
    have "u \<noteq> ''london''" if "(n, ed) \<in> set (ds_entities sample_dataset)" "u \<in> set (entity_utterances ed)" for n ed u
      using sample_utterances[OF that] by auto
    then show ?thesis unfolding c ns by blast
  qed
  then have "names_of (index ''london'') = {||}"
    by (metis bot_fset.rep_eq fset_inject)
  with n have 2: "index ''london'' = None" by simp
  have 3: "entity_utterances_to_entity_names sample_featurizer = None"
    by (simp add: sample_featurizer_def Featurizer_init_def)
  have t: "tokenize_light sample_env '''' (language sample_featurizer) = []"
    "tokenize_light sample_env ''   '' (language sample_featurizer) = []"
    by simp_all
  from t f 1 2 3 show ?thesis by simp
qed

section \<open>Deserialization\<close>


text \<open>
  Claim C8, as stated, fails: \<^verbatim>\<open>from_dict\<close> builds a Featurizer from a state with a
  vocabulary of one term and two IDF values.
\<close>

theorem from_dict_accepts_length_mismatch:
  "length (d_vocab (d_tfidf_vectorizer mismatched_dict))
     \<noteq> length (d_idf_diag (d_tfidf_vectorizer mismatched_dict))
   \<and> \<not> isl (from_dict sample_env mismatched_dict)
   \<and> vocabulary (tfidf_vectorizer (projr (from_dict sample_env mismatched_dict)))
       = Some [(''a'', 0)]
   \<and> idf_diag (tfidf_vectorizer (projr (from_dict sample_env mismatched_dict)))
       = Some [1, 2]"
  by (simp add: mismatched_dict_def from_dict_def sample_env_def sample_resources_def Featurizer_init_def
        deserialize_tfidf_vectorizer_def default_tfidf_vectorizer_def)

text \<open>
  Claim C8, amended. \<^verbatim>\<open>from_dict\<close> raises what \<^verbatim>\<open>Language.from_iso_code\<close> raises on
  the language code, before anything is built; when the code is recognized it builds the
  Featurizer from the vocabulary and the IDF sequence as they are, whatever their lengths.
\<close>

theorem from_dict_checks_language_only:
  "(\<forall>e. from_iso_code env (d_language_code d) = Inl e \<longrightarrow> from_dict env d = Inl e)
   \<and> (\<forall>lang. from_iso_code env (d_language_code d) = Inr lang \<longrightarrow>
        (\<exists>F. from_dict env d = Inr F
           \<and> language F = lang
           \<and> tfidf_vectorizer F = \<lparr>tokenizer_language = lang,
                 vocabulary = Some (d_vocab (d_tfidf_vectorizer d)),
                 idf_diag = Some (d_idf_diag (d_tfidf_vectorizer d))\<rparr>
           \<and> best_features F = d_best_features d
           \<and> pvalue_threshold F = d_pvalue_threshold d))"
  by (simp add: from_dict_def Featurizer_init_def deserialize_tfidf_vectorizer_def
        default_tfidf_vectorizer_def)

theorem from_dict_checks_language_only_witness:
  "from_iso_code sample_env (d_language_code (mismatched_dict\<lparr>d_language_code := ''xx''\<rparr>))
     = Inl KeyError
   \<and> from_dict sample_env (mismatched_dict\<lparr>d_language_code := ''xx''\<rparr>) = Inl KeyError
   \<and> from_iso_code sample_env (d_language_code mismatched_dict) = Inr EN
   \<and> (\<exists>F. from_dict sample_env mismatched_dict = Inr F \<and> language F = EN
         \<and> idf_diag (tfidf_vectorizer F) = Some [1, 2])"
proof -
  let ?env = sample_env
  have 1: "from_iso_code ?env (d_language_code (mismatched_dict\<lparr>d_language_code := ''xx''\<rparr>)) = Inl KeyError"
    by (simp add: sample_env_def sample_resources_def)
  have 2: "from_iso_code ?env (d_language_code mismatched_dict) = Inr EN"
    by (simp add: sample_env_def sample_resources_def mismatched_dict_def)
  from from_dict_checks_language_only[of ?env "mismatched_dict\<lparr>d_language_code := ''xx''\<rparr>"] 1
  have 3: "from_dict ?env (mismatched_dict\<lparr>d_language_code := ''xx''\<rparr>) = Inl KeyError"
    by blast
  from from_dict_checks_language_only[of ?env mismatched_dict] 2
  obtain F where "from_dict ?env mismatched_dict = Inr F" "language F = EN"
    "tfidf_vectorizer F = \<lparr>tokenizer_language = EN,
                 vocabulary = Some (d_vocab (d_tfidf_vectorizer mismatched_dict)),
                 idf_diag = Some (d_idf_diag (d_tfidf_vectorizer mismatched_dict))\<rparr>"
    by blast
  then have 4: "\<exists>F. from_dict ?env mismatched_dict = Inr F \<and> language F = EN
         \<and> idf_diag (tfidf_vectorizer F) = Some [1, 2]"
    by (simp add: mismatched_dict_def)
  from 1 2 3 4 show ?thesis by blast
qed

section \<open>Transform before a fit\<close>

lemma get_word_cluster_features_none [simp]:
  "get_word_cluster_features env query_tokens lang = Inr []"
  by (simp add: get_word_cluster_features_def CLUSTER_USED_PER_LANGUAGES_def)

lemma preprocess_query_Some:
  "\<exists>doc. preprocess_query env q lang (Some m) = Inr doc"
  by (simp add: preprocess_query_def get_dataset_entities_features_def Let_def)

lemma preprocess_query_None:
  "preprocess_query env q lang None =
     (if get_all_ngrams env (map (\<lambda>t. normalize_stem env t lang) (tokenize_light env q lang)) = []
      then Inr (str_join (default_sep lang) (map (\<lambda>t. normalize_stem env t lang) (tokenize_light env q lang)))
      else Inl AttributeError)"
  by (simp add: preprocess_query_def get_dataset_entities_features_def Let_def)

lemma preprocess_loop_Some:
  "\<exists>docs. preprocess_loop env lang (Some m) qs = Inr docs"
proof (induction qs)
  case Nil
  then show ?case by simp
next
  case (Cons q qs)
  from preprocess_query_Some[of env q lang m] Cons show ?case by auto
qed

lemma preprocess_loop_None:
  "(\<exists>docs. preprocess_loop env lang None qs = Inr docs) \<and>
     \<not> (\<exists>q\<in>set qs. get_all_ngrams env (map (\<lambda>t. normalize_stem env t lang) (tokenize_light env q lang)) \<noteq> [])
   \<or> preprocess_loop env lang None qs = Inl AttributeError \<and>
     (\<exists>q\<in>set qs. get_all_ngrams env (map (\<lambda>t. normalize_stem env t lang) (tokenize_light env q lang)) \<noteq> [])"
proof (induction qs)
  case Nil
  then show ?case by simp
next
  case (Cons q qs)
  then show ?case by (auto simp: preprocess_query_None)
qed

text \<open>
  How \<^verbatim>\<open>transform\<close> fails on a Featurizer whose vectorizer has not been fitted: the
  queries are preprocessed first, so a missing entity index is met before the vectorizer.
\<close>

lemma transform_unfitted_cases:
  assumes "vocabulary (tfidf_vectorizer self) = None"
  shows "transform env self queries =
     Inl (if entity_utterances_to_entity_names self = None
             \<and> (\<exists>q\<in>set queries. get_all_ngrams env
                    (map (\<lambda>t. normalize_stem env t (language self))
                       (tokenize_light env q (language self))) \<noteq> [])
          then AttributeError else NotFittedError)"
proof (cases "entity_utterances_to_entity_names self")
  case None
  with preprocess_loop_None[of env "language self" queries] assms show ?thesis
    by (auto simp: transform_def preprocess_queries_def vectorizer_transform_def)
next
  case (Some m)
  with preprocess_loop_Some[of env "language self" m queries] assms show ?thesis
    by (auto simp: transform_def preprocess_queries_def vectorizer_transform_def)
qed

lemma sample_env_ngrams [simp]: "get_all_ngrams sample_env = sample_ngrams"
  by (simp add: sample_env_def sample_resources_def)

lemma sample_env_normalize_stem [simp]: "normalize_stem sample_env u lang = u"
  by (simp add: normalize_stem_def sample_env_def sample_resources_def)

lemma sample_featurizer_fields [simp]:
  "language sample_featurizer = EN"
  "tfidf_vectorizer sample_featurizer = default_tfidf_vectorizer EN"
  "best_features sample_featurizer = None"
  "pvalue_threshold sample_featurizer = 0.4"
  "entity_utterances_to_entity_names sample_featurizer = None"
  by (simp_all add: sample_featurizer_def Featurizer_init_def)

lemma sample_hello_ngrams [simp]: "sample_ngrams [''hello''] = [''hello'']"
  by (simp add: sample_ngrams_def)

lemma sample_no_ngrams [simp]: "sample_ngrams [] = []"
  by (simp add: sample_ngrams_def)

text \<open>
  Claim C7 fails on the code. On a Featurizer constructed with the default arguments and
  never fitted, \<^verbatim>\<open>transform(["hello"])\<close> raises AttributeError, not NotFittedError: the
  entity index still has its default \<^verbatim>\<open>None\<close> when the first n-gram is looked up in it.
  The other unfitted paths do raise NotFittedError: the same Featurizer on a query
  without n-grams, and the Featurizer that an aborted \<^verbatim>\<open>fit\<close> has left, whose index is set.
\<close>

theorem default_featurizer_transform_attribute_error:
  "vocabulary (tfidf_vectorizer sample_featurizer) = None
   \<and> entity_utterances_to_entity_names sample_featurizer = None
   \<and> transform sample_env sample_featurizer [''hello''] = Inl AttributeError
   \<and> transform sample_env sample_featurizer [''''] = Inl NotFittedError
   \<and> vocabulary (tfidf_vectorizer
        (fst (fit sample_env sample_featurizer sample_dataset ['''', ''   ''] [0, 1]))) = None
   \<and> transform sample_env
        (fst (fit sample_env sample_featurizer sample_dataset ['''', ''   ''] [0, 1])) [''hello'']
       = Inl NotFittedError"
proof -
  let ?F = "fst (fit sample_env sample_featurizer sample_dataset ['''', ''   ''] [0, 1])"
  have v1: "vocabulary (tfidf_vectorizer sample_featurizer) = None"
    by (simp add: default_tfidf_vectorizer_def)
  have e1: "entity_utterances_to_entity_names sample_featurizer = None"
    by simp
  have ab: "all_queries_empty sample_env (language sample_featurizer) ['''', ''   '']"
    by (simp add: all_queries_empty_def)
  have F: "?F = sample_featurizer\<lparr>entity_utterances_to_entity_names :=
                  Some (fit_entities sample_env (language sample_featurizer) sample_dataset)\<rparr>"
    by (simp add: fit_aborted[OF ab])
  have v2: "vocabulary (tfidf_vectorizer ?F) = None"
    unfolding F by (simp add: default_tfidf_vectorizer_def)
  have e2: "entity_utterances_to_entity_names ?F \<noteq> None"
    unfolding F by simp
  have 1: "transform sample_env sample_featurizer [''hello''] = Inl AttributeError"
    using transform_unfitted_cases[OF v1, of sample_env "[''hello'']"]
    by simp
  have 2: "transform sample_env sample_featurizer [''''] = Inl NotFittedError"
    using transform_unfitted_cases[OF v1, of sample_env "['''']"]
    by simp
  have 3: "transform sample_env ?F [''hello''] = Inl NotFittedError"
    using transform_unfitted_cases[OF v2, of sample_env "[''hello'']"] e2
    by simp
  from v1 e1 v2 1 2 3 show ?thesis by blast
qed

section \<open>Feature selection\<close>

lemma enumerate_filter:
  "map fst (filter (\<lambda>(i, v). P v) (enumerate n xs)) =
     filter (\<lambda>i. P (xs ! (i - n))) [n..<n + length xs]"
proof (induction xs arbitrary: n)
  case Nil
  then show ?case by simp
next
  case (Cons x xs)
  have tail: "filter (\<lambda>i. P ((x # xs) ! (i - n))) [Suc n..<Suc n + length xs] =
              filter (\<lambda>i. P (xs ! (i - Suc n))) [Suc n..<Suc n + length xs]"
  proof (rule filter_cong[OF refl])
    fix i assume "i \<in> set [Suc n..<Suc n + length xs]"
    then have "i - n = Suc (i - Suc n)" by auto
    then show "P ((x # xs) ! (i - n)) = P (xs ! (i - Suc n))" by simp
  qed
  have "[n..<n + length (x # xs)] = n # [Suc n..<Suc n + length xs]"
    using upt_conv_Cons[of n "n + length (x # xs)"] by simp
  with Cons[of "Suc n"] tail show ?case by simp
qed

lemma select_pvalues_filter:
  "select_pvalues pval threshold =
     (if filter (\<lambda>i. np_less (pval ! i) threshold) [0..<length pval] = []
      then filter (\<lambda>i. np_eq (pval ! i) (np_min pval)) [0..<length pval]
      else filter (\<lambda>i. np_less (pval ! i) threshold) [0..<length pval])"
  using enumerate_filter[of "\<lambda>v. np_less v threshold" 0 pval]
        enumerate_filter[of "\<lambda>v. np_eq v (np_min pval)" 0 pval]
  by (simp add: select_pvalues_def)

lemma distinct_select_pvalues: "distinct (select_pvalues pval threshold)"
  by (simp add: select_pvalues_filter)

lemma select_pvalues_bound: "i \<in> set (select_pvalues pval threshold) \<Longrightarrow> i < length pval"
  by (auto simp: select_pvalues_filter split: if_splits)

lemma select_pvalues_below:
  assumes "i < length pval" and "np_less (pval ! i) threshold"
  shows "select_pvalues pval threshold = filter (\<lambda>i. np_less (pval ! i) threshold) [0..<length pval]"
    and "i \<in> set (select_pvalues pval threshold)"
proof -
  from assms have ne: "filter (\<lambda>i. np_less (pval ! i) threshold) [0..<length pval] \<noteq> []"
    by (auto simp: filter_empty_conv)
  then show "select_pvalues pval threshold = filter (\<lambda>i. np_less (pval ! i) threshold) [0..<length pval]"
    by (simp add: select_pvalues_filter)
  with assms show "i \<in> set (select_pvalues pval threshold)" by simp
qed

text \<open>The minimum of numpy: NaN as soon as one element is NaN, the least number otherwise.\<close>

lemma np_min_NaN: "NaN \<in> set pval \<Longrightarrow> np_min pval = NaN"
  by (induction pval rule: np_min.induct) (auto simp: np_min2_def split: npfloat.splits)

lemma np_min_Val: "xs \<noteq> [] \<Longrightarrow> np_min (map Val xs) = Val (Min (set xs))"
proof (induction xs rule: list_nonempty_induct)
  case (single x)
  then show ?case by simp
next
  case (cons x xs)
  then obtain y ys where "xs = y # ys" by (cases xs) auto
  with cons show ?case by (simp add: np_min2_def)
qed

text \<open>
  When no p-value is below the threshold: a NaN among the p-values leaves the selection
  empty, since no p-value equals NaN; without NaN the fallback keeps the indices of the
  minimum, at least one.
\<close>

lemma select_pvalues_NaN:
  assumes "NaN \<in> set pval" and "\<not> (\<exists>i<length pval. np_less (pval ! i) threshold)"
  shows "select_pvalues pval threshold = []"
proof -
  from assms(2) have "filter (\<lambda>i. np_less (pval ! i) threshold) [0..<length pval] = []"
    by (auto simp: filter_empty_conv)
  moreover have "filter (\<lambda>i. np_eq (pval ! i) (np_min pval)) [0..<length pval] = []"
    unfolding np_min_NaN[OF assms(1)]
    by (auto simp: filter_empty_conv np_eq_def split: npfloat.splits)
  ultimately show ?thesis by (simp add: select_pvalues_filter)
qed

lemma select_pvalues_minimum:
  assumes "\<not> (\<exists>i<length xs. xs ! i < threshold)"
  shows "select_pvalues (map Val xs) threshold = filter (\<lambda>i. xs ! i = Min (set xs)) [0..<length xs]"
    and "xs \<noteq> [] \<Longrightarrow> select_pvalues (map Val xs) threshold \<noteq> []"
proof -
  from assms have e: "filter (\<lambda>i. np_less (map Val xs ! i) threshold) [0..<length (map Val xs)] = []"
    by (auto simp: filter_empty_conv np_less_def)
  have m: "filter (\<lambda>i. np_eq (map Val xs ! i) (np_min (map Val xs))) [0..<length (map Val xs)]
         = filter (\<lambda>i. xs ! i = Min (set xs)) [0..<length xs]"
  proof (cases "xs = []")
    case True
    then show ?thesis by simp
  next
    case False
    show ?thesis
      unfolding np_min_Val[OF False]
      by (rule filter_cong) (auto simp: np_eq_def)
  qed
  show eq: "select_pvalues (map Val xs) threshold = filter (\<lambda>i. xs ! i = Min (set xs)) [0..<length xs]"
    unfolding select_pvalues_filter e m by simp
  show "select_pvalues (map Val xs) threshold \<noteq> []" if ne: "xs \<noteq> []"
  proof -
    from ne have "Min (set xs) \<in> set xs" by (intro Min_in) simp_all
    then obtain i where "i < length xs" "xs ! i = Min (set xs)"
      by (auto simp: in_set_conv_nth)
    then have "filter (\<lambda>i. xs ! i = Min (set xs)) [0..<length xs] \<noteq> []"
      by (auto simp: filter_empty_conv)
    with eq show ?thesis by simp
  qed
qed

section \<open>Stop-word demotion\<close>

text \<open>
  The loop of lines 170 to 173 visits the keys of \<^verbatim>\<open>feature_names\<close> in the order of the
  dictionary. Whatever list \<open>ks\<close> of keys it visits, it leaves the elements of
  \<^verbatim>\<open>best_features\<close> that are not a visited stop word above half the threshold.
\<close>

lemma feature_names_of_Inr:
  "feature_names_of index_words pval best = Inr names \<longleftrightarrow>
     (\<forall>i\<in>set best. index_words i \<noteq> None) \<and>
     names = map (\<lambda>i. (i, the (index_words i), pval ! i)) best"
  by (auto simp: feature_names_of_def list_ex_iff)

lemma demote_stop_words_filter:
  "distinct best \<Longrightarrow>
   demote_stop_words stop_words threshold (map (\<lambda>i. (i, w i, p i)) ks) best =
     filter (\<lambda>i. \<not> (i \<in> set ks \<and> w i \<in> stop_words \<and> np_greater (p i) (threshold / 2))) best"
proof (induction ks arbitrary: best)
  case Nil
  then show ?case by (simp add: demote_stop_words_def)
next
  case (Cons k ks)
  let ?bad = "\<lambda>i. w i \<in> stop_words \<and> np_greater (p i) (threshold / 2)"
  let ?best' = "if ?bad k then remove1 k best else best"
  have d: "distinct ?best'" using Cons.prems by simp
  have step: "demote_stop_words stop_words threshold (map (\<lambda>i. (i, w i, p i)) (k # ks)) best =
        demote_stop_words stop_words threshold (map (\<lambda>i. (i, w i, p i)) ks) ?best'"
    by (simp add: demote_stop_words_def)
  have r: "remove1 k best = filter (\<lambda>i. i \<noteq> k) best"
    using Cons.prems by (simp add: distinct_remove1_removeAll removeAll_filter_not_eq) metis
  show ?case
    unfolding step Cons.IH[OF d]
    by (cases "?bad k") (auto simp: r intro: filter_cong)
qed

lemma fit_success:
  assumes "fit env self ds queries y = (self', Inr ReturnSelf)"
  shows "\<exists>self2 vocab pval.
      fit_pvalues env (self\<lparr>entity_utterances_to_entity_names :=
                         Some (fit_entities env (language self) ds)\<rparr>) queries y
        = (self2, Inr (vocab, pval))
    \<and> (\<forall>i\<in>set (select_pvalues pval (pvalue_threshold self)). list_index_words vocab i \<noteq> None)
    \<and> self' = self2\<lparr>best_features := Some
         (filter (\<lambda>i. \<not> (the (list_index_words vocab i) \<in> get_stop_words env (language self)
                         \<and> np_greater (pval ! i) (pvalue_threshold self / 2)))
            (select_pvalues pval (pvalue_threshold self)))\<rparr>"
proof -
  let ?self1 = "self\<lparr>entity_utterances_to_entity_names := Some (fit_entities env (language self) ds)\<rparr>"
  let ?sel = "\<lambda>pval. select_pvalues pval (pvalue_threshold self)"
  from assms have ne: "\<not> all_queries_empty env (language self) queries"
    by (auto simp: fit_def)
  obtain self2 r where fp: "fit_pvalues env ?self1 queries y = (self2, r)"
    by (cases "fit_pvalues env ?self1 queries y")
  from assms ne fp obtain vocab pval where r: "r = Inr (vocab, pval)"
    by (cases r) (auto simp: fit_def Let_def)
  from assms ne fp r obtain names where
    fn: "feature_names_of (list_index_words vocab) pval (?sel pval) = Inr names"
    and s': "self' = self2\<lparr>best_features := Some
         (demote_stop_words (get_stop_words env (language self)) (pvalue_threshold self) names (?sel pval))\<rparr>"
    by (auto simp: fit_def Let_def split: sum.splits)
  from fn have all: "\<forall>i\<in>set (?sel pval). list_index_words vocab i \<noteq> None"
    and names: "names = map (\<lambda>i. (i, the (list_index_words vocab i), pval ! i)) (?sel pval)"
    by (simp_all add: feature_names_of_Inr)
  have "demote_stop_words (get_stop_words env (language self)) (pvalue_threshold self) names (?sel pval)
      = filter (\<lambda>i. \<not> (the (list_index_words vocab i) \<in> get_stop_words env (language self)
                         \<and> np_greater (pval ! i) (pvalue_threshold self / 2))) (?sel pval)"
    unfolding names
    by (subst demote_stop_words_filter[OF distinct_select_pvalues]) (auto intro: filter_cong)
  with fp r all s' show ?thesis by simp
qed

text \<open>
  Claim C5. After a successful \<^verbatim>\<open>fit\<close>, with the vocabulary and the p-values that it
  computed: the final selection is part of the selection of lines 160 to 164; every
  index of that selection has a word, and is missing from the final selection if and
  only if its word is a stop word of the language and its p-value exceeds half the
  threshold (so a word that is no stop word is never removed). With a positive
  threshold, a stop word whose p-value is 0.9 times the threshold is not in the final
  selection and one whose p-value is 0.1 times the threshold is.
\<close>

theorem stop_word_demotion:
  assumes "fit env self ds queries y = (self', Inr ReturnSelf)"
  shows "\<exists>self2 vocab pval final.
      fit_pvalues env (self\<lparr>entity_utterances_to_entity_names :=
                         Some (fit_entities env (language self) ds)\<rparr>) queries y
        = (self2, Inr (vocab, pval))
    \<and> best_features self' = Some final
    \<and> set final \<subseteq> set (select_pvalues pval (pvalue_threshold self))
    \<and> (\<forall>i\<in>set (select_pvalues pval (pvalue_threshold self)).
          \<exists>word. list_index_words vocab i = Some word
            \<and> (i \<notin> set final \<longleftrightarrow>
                 word \<in> get_stop_words env (language self) \<and> np_greater (pval ! i) (pvalue_threshold self / 2)))
    \<and> (0 < pvalue_threshold self \<longrightarrow>
         (\<forall>i word. i < length pval \<and> list_index_words vocab i = Some word
              \<and> word \<in> get_stop_words env (language self) \<longrightarrow>
            (pval ! i = Val (0.9 * pvalue_threshold self) \<longrightarrow> i \<notin> set final)
          \<and> (pval ! i = Val (0.1 * pvalue_threshold self) \<longrightarrow> i \<in> set final)))"
proof -
  let ?thr = "pvalue_threshold self"
  let ?stop = "get_stop_words env (language self)"
  from fit_success[OF assms] obtain self2 vocab pval where
    fp: "fit_pvalues env (self\<lparr>entity_utterances_to_entity_names :=
                         Some (fit_entities env (language self) ds)\<rparr>) queries y
        = (self2, Inr (vocab, pval))"
    and words: "\<forall>i\<in>set (select_pvalues pval ?thr). list_index_words vocab i \<noteq> None"
    and s': "self' = self2\<lparr>best_features := Some
         (filter (\<lambda>i. \<not> (the (list_index_words vocab i) \<in> ?stop \<and> np_greater (pval ! i) (?thr / 2)))
            (select_pvalues pval ?thr))\<rparr>"
    by blast
  let ?final = "filter (\<lambda>i. \<not> (the (list_index_words vocab i) \<in> ?stop \<and> np_greater (pval ! i) (?thr / 2)))
            (select_pvalues pval ?thr)"
  have bf: "best_features self' = Some ?final" unfolding s' by simp
  have sub: "set ?final \<subseteq> set (select_pvalues pval ?thr)" by auto
  have each: "\<exists>word. list_index_words vocab i = Some word
            \<and> (i \<notin> set ?final \<longleftrightarrow> word \<in> ?stop \<and> np_greater (pval ! i) (?thr / 2))"
    if "i \<in> set (select_pvalues pval ?thr)" for i
  proof -
    from words that obtain word where w: "list_index_words vocab i = Some word" by auto
    with that show ?thesis by auto
  qed
  have sel: "i \<in> set (select_pvalues pval ?thr)" if "i < length pval" "np_less (pval ! i) ?thr" for i
    using that by (rule select_pvalues_below(2))
  have ex: "(pval ! i = Val (0.9 * ?thr) \<longrightarrow> i \<notin> set ?final)
          \<and> (pval ! i = Val (0.1 * ?thr) \<longrightarrow> i \<in> set ?final)"
    if pos: "0 < ?thr" and i: "i < length pval" and w: "list_index_words vocab i = Some word"
      and st: "word \<in> ?stop" for i word
  proof (intro conjI impI)
    assume p: "pval ! i = Val (0.9 * ?thr)"
    with pos have "np_greater (pval ! i) (?thr / 2)" by (simp add: np_greater_def)
    with w st show "i \<notin> set ?final" by simp
  next
    assume p: "pval ! i = Val (0.1 * ?thr)"
    with pos have "np_less (pval ! i) ?thr" "\<not> np_greater (pval ! i) (?thr / 2)"
      by (simp_all add: np_less_def np_greater_def)
    with sel[OF i] show "i \<in> set ?final" by simp
  qed
  from fp bf sub each ex show ?thesis
    by (intro exI[of _ self2] exI[of _ vocab] exI[of _ pval] exI[of _ ?final]) blast
qed

lemma sample_fit_pvalues:
  assumes "entity_utterances_to_entity_names self = Some m"
  shows "fit_pvalues (sample_resources (Inr (vocab, idf, X)) (Inr pval)) self queries y =
     (self\<lparr>tfidf_vectorizer := (tfidf_vectorizer self)\<lparr>vocabulary := Some vocab,
                                                         idf_diag := Some idf\<rparr>\<rparr>,
      Inr (vocab, pval))"
proof -
  from preprocess_loop_Some[of "sample_resources (Inr (vocab, idf, X)) (Inr pval)" "language self" m queries]
  obtain docs where "preprocess_queries (sample_resources (Inr (vocab, idf, X)) (Inr pval)) self queries = Inr docs"
    using assms by (auto simp: preprocess_queries_def)
  then show ?thesis
    by (simp add: fit_pvalues_def sample_resources_def)
qed

lemma sample_stop_words [simp]:
  "get_stop_words (sample_resources fitted pvalues) lang = {''the'', ''a''}"
  by (simp add: sample_resources_def)

lemma fit_unfold:
  assumes "\<not> all_queries_empty env (language self) queries"
    and "fit_pvalues env (self\<lparr>entity_utterances_to_entity_names :=
                            Some (fit_entities env (language self) ds)\<rparr>) queries y
          = (self2, Inr (vocab, pval))"
    and "feature_names_of (list_index_words vocab) pval
           (select_pvalues pval (pvalue_threshold self)) = Inr names"
  shows "fit env self ds queries y =
     (self2\<lparr>best_features := Some (demote_stop_words (get_stop_words env (language self))
                (pvalue_threshold self) names (select_pvalues pval (pvalue_threshold self)))\<rparr>,
      Inr ReturnSelf)"
  using assms by (simp add: fit_def Let_def)

lemma the_not_empty: "\<not> all_queries_empty sample_env (language sample_featurizer) [''the'', ''the'']"
  by (simp add: all_queries_empty_def)

lemma select_single: "select_pvalues [Val 1] (pvalue_threshold sample_featurizer) = [0]"
  by (simp add: select_pvalues_def np_less_def np_eq_def)

lemma index_words_the: "list_index_words [(''the'', 0)] 0 = Some ''the''"
  by (simp add: list_index_words_def)

text \<open>
  Claim C4 fails on the code. On the queries \<^verbatim>\<open>["the", "the"]\<close> with the labels \<^verbatim>\<open>[0, 1]\<close>
  the fit succeeds with the vocabulary \<^verbatim>\<open>{"the": 0}\<close>. The only p-value is 1, so the
  fallback of lines 162 to 164 selects index 0; "the" is a stop word and 1 exceeds half
  the threshold, so the stop-word pass removes it, and \<^verbatim>\<open>best_features\<close> is left empty.
\<close>

theorem fit_stop_word_vocabulary_selects_nothing:
  "snd (fit sample_env sample_featurizer sample_dataset [''the'', ''the''] [0, 1]) = Inr ReturnSelf
   \<and> vocabulary (tfidf_vectorizer
        (fst (fit sample_env sample_featurizer sample_dataset [''the'', ''the''] [0, 1])))
       = Some [(''the'', 0)]
   \<and> best_features (fst (fit sample_env sample_featurizer sample_dataset [''the'', ''the''] [0, 1]))
       = Some []"
proof -
  let ?self1 = "sample_featurizer\<lparr>entity_utterances_to_entity_names :=
                  Some (fit_entities sample_env (language sample_featurizer) sample_dataset)\<rparr>"
  have fp: "fit_pvalues sample_env ?self1 [''the'', ''the''] [0, 1] =
     (?self1\<lparr>tfidf_vectorizer := (tfidf_vectorizer ?self1)\<lparr>vocabulary := Some [(''the'', 0)],
                                                         idf_diag := Some [1]\<rparr>\<rparr>,
      Inr ([(''the'', 0)], [Val 1]))"
    unfolding sample_env_def by (rule sample_fit_pvalues) simp
  have fn: "feature_names_of (list_index_words [(''the'', 0)]) [Val 1]
              (select_pvalues [Val 1] (pvalue_threshold sample_featurizer)) = Inr [(0, ''the'', Val 1)]"
    unfolding select_single by (simp add: feature_names_of_def index_words_the)
  have dm: "demote_stop_words (get_stop_words sample_env (language sample_featurizer))
              (pvalue_threshold sample_featurizer) [(0, ''the'', Val 1)]
              (select_pvalues [Val 1] (pvalue_threshold sample_featurizer)) = []"
    unfolding select_single by (simp add: demote_stop_words_def sample_env_def np_greater_def)
  show ?thesis
    unfolding fit_unfold[OF the_not_empty fp fn] dm by simp
qed

lemma single_class_not_empty:
  "\<not> all_queries_empty single_class_env (language sample_featurizer)
       [''book flight'', ''play music'']"
  by (simp add: all_queries_empty_def single_class_env_def)

lemma select_single_class:
  "select_pvalues single_class_pval (pvalue_threshold sample_featurizer) = []"
  by (simp add: select_pvalues_def single_class_pval_def np_less_def np_eq_def np_min2_def)

text \<open>
  Claim C6 fails on the code. On the queries \<^verbatim>\<open>["book flight", "play music"]\<close> with the
  single label 0 the fit succeeds with a vocabulary of four terms, and every p-value is
  NaN. No p-value is below the threshold, and none equals the minimum, which is NaN: the
  selection of lines 160 to 164 is empty although the vocabulary is not, and so is
  \<^verbatim>\<open>best_features\<close> after the fit.
\<close>

theorem fit_single_class_selects_nothing:
  "snd (fit single_class_env sample_featurizer sample_dataset
          [''book flight'', ''play music''] [0, 0]) = Inr ReturnSelf
   \<and> vocabulary (tfidf_vectorizer
        (fst (fit single_class_env sample_featurizer sample_dataset
                [''book flight'', ''play music''] [0, 0])))
       = Some [(''book'', 0), (''flight'', 1), (''music'', 2), (''play'', 3)]
   \<and> select_pvalues [NaN, NaN, NaN, NaN] (pvalue_threshold sample_featurizer) = []
   \<and> best_features (fst (fit single_class_env sample_featurizer sample_dataset
                            [''book flight'', ''play music''] [0, 0]))
       = Some []"
proof -
  let ?qs = "[''book flight'', ''play music'']"
  let ?self1 = "sample_featurizer\<lparr>entity_utterances_to_entity_names :=
                  Some (fit_entities single_class_env (language sample_featurizer) sample_dataset)\<rparr>"
  have fp: "fit_pvalues single_class_env ?self1 ?qs [0, 0] =
     (?self1\<lparr>tfidf_vectorizer := (tfidf_vectorizer ?self1)\<lparr>vocabulary := Some single_class_vocab,
         idf_diag := Some [ln (3 / 2) + 1, ln (3 / 2) + 1, ln (3 / 2) + 1, ln (3 / 2) + 1]\<rparr>\<rparr>,
      Inr (single_class_vocab, single_class_pval))"
    unfolding single_class_env_def by (rule sample_fit_pvalues) simp
  have fn: "feature_names_of (list_index_words single_class_vocab) single_class_pval
              (select_pvalues single_class_pval (pvalue_threshold sample_featurizer)) = Inr []"
    unfolding select_single_class by (simp add: feature_names_of_def)
  have dm: "demote_stop_words (get_stop_words single_class_env (language sample_featurizer))
              (pvalue_threshold sample_featurizer) []
              (select_pvalues single_class_pval (pvalue_threshold sample_featurizer)) = []"
    unfolding select_single_class by (simp add: demote_stop_words_def)
  have sel: "select_pvalues [NaN, NaN, NaN, NaN] (pvalue_threshold sample_featurizer) = []"
    using select_single_class by (simp add: single_class_pval_def)
  have voc: "single_class_vocab = [(''book'', 0), (''flight'', 1), (''music'', 2), (''play'', 3)]"
    by (simp add: single_class_vocab_def)
  show ?thesis
    unfolding fit_unfold[OF single_class_not_empty fp fn] dm using sel voc by simp
qed

lemma demotion_not_empty:
  "\<not> all_queries_empty demotion_env (language sample_featurizer) [''a flight'', ''the flight'']"
  by (simp add: all_queries_empty_def demotion_env_def)

lemma select_three:
  "select_pvalues demotion_pval (pvalue_threshold sample_featurizer) = [0, 1, 2]"
  by (simp add: select_pvalues_def demotion_pval_def np_less_def)

lemma index_words_three:
  "list_index_words demotion_vocab 0 = Some ''a''"
  "list_index_words demotion_vocab (Suc 0) = Some ''flight''"
  "list_index_words demotion_vocab 2 = Some ''the''"
  by (simp_all add: list_index_words_def demotion_vocab_def)

lemma demotion_pval_nth:
  "length demotion_pval = 3"
  "demotion_pval ! 0 = Val 0.36" "demotion_pval ! Suc 0 = Val 0.3" "demotion_pval ! 2 = Val 0.04"
  by (simp_all add: demotion_pval_def)

theorem stop_word_demotion_witness:
  "snd (fit demotion_env sample_featurizer sample_dataset [''a flight'', ''the flight''] [0, 1])
     = Inr ReturnSelf
   \<and> 0 \<notin> set (the (best_features
        (fst (fit demotion_env sample_featurizer sample_dataset [''a flight'', ''the flight''] [0, 1]))))
   \<and> 1 \<in> set (the (best_features
        (fst (fit demotion_env sample_featurizer sample_dataset [''a flight'', ''the flight''] [0, 1]))))
   \<and> 2 \<in> set (the (best_features
        (fst (fit demotion_env sample_featurizer sample_dataset [''a flight'', ''the flight''] [0, 1]))))"
proof -
  let ?qs = "[''a flight'', ''the flight'']"
  let ?vocab = demotion_vocab
  let ?pval = demotion_pval
  let ?self1 = "sample_featurizer\<lparr>entity_utterances_to_entity_names :=
                  Some (fit_entities demotion_env (language sample_featurizer) sample_dataset)\<rparr>"
  let ?R = "fit demotion_env sample_featurizer sample_dataset ?qs [0, 1]"
  have fp: "fit_pvalues demotion_env ?self1 ?qs [0, 1] =
     (?self1\<lparr>tfidf_vectorizer := (tfidf_vectorizer ?self1)\<lparr>vocabulary := Some ?vocab,
                                                         idf_diag := Some [1, 1, 1]\<rparr>\<rparr>,
      Inr (?vocab, ?pval))"
    unfolding demotion_env_def by (rule sample_fit_pvalues) simp
  have fn: "feature_names_of (list_index_words ?vocab) ?pval
              (select_pvalues ?pval (pvalue_threshold sample_featurizer)) =
      Inr [(0, ''a'', Val 0.36), (1, ''flight'', Val 0.3), (2, ''the'', Val 0.04)]"
    unfolding select_three by (simp add: feature_names_of_def index_words_three demotion_pval_nth)
  have ok: "snd ?R = Inr ReturnSelf"
    unfolding fit_unfold[OF demotion_not_empty fp fn] by simp
  then have h: "?R = (fst ?R, Inr ReturnSelf)" by (simp add: prod_eq_iff)
  have thr: "pvalue_threshold sample_featurizer = 0.4" by simp
  have sw: "get_stop_words demotion_env (language sample_featurizer) = {''the'', ''a''}"
    by (simp add: demotion_env_def)
  from stop_word_demotion[OF h] obtain self2 vocab pval final where
    fp': "fit_pvalues demotion_env ?self1 ?qs [0, 1] = (self2, Inr (vocab, pval))"
    and bf: "best_features (fst ?R) = Some final"
    and each: "\<forall>i\<in>set (select_pvalues pval (pvalue_threshold sample_featurizer)).
          \<exists>word. list_index_words vocab i = Some word
            \<and> (i \<notin> set final \<longleftrightarrow>
                 word \<in> get_stop_words demotion_env (language sample_featurizer)
                 \<and> np_greater (pval ! i) (pvalue_threshold sample_featurizer / 2))"
    and ex: "0 < pvalue_threshold sample_featurizer \<longrightarrow>
         (\<forall>i word. i < length pval \<and> list_index_words vocab i = Some word
              \<and> word \<in> get_stop_words demotion_env (language sample_featurizer) \<longrightarrow>
            (pval ! i = Val (0.9 * pvalue_threshold sample_featurizer) \<longrightarrow> i \<notin> set final)
          \<and> (pval ! i = Val (0.1 * pvalue_threshold sample_featurizer) \<longrightarrow> i \<in> set final))"
    by blast
  from fp fp' have v: "vocab = ?vocab" and p: "pval = ?pval" by simp_all
  from ex have ex': "\<And>i word. i < length pval \<Longrightarrow> list_index_words vocab i = Some word
              \<Longrightarrow> word \<in> {''the'', ''a''} \<Longrightarrow>
            (pval ! i = Val (0.9 * 0.4) \<longrightarrow> i \<notin> set final) \<and> (pval ! i = Val (0.1 * 0.4) \<longrightarrow> i \<in> set final)"
    unfolding thr sw by simp
  have 0: "0 \<notin> set final"
    using ex'[of 0 "''a''"] unfolding v p by (simp add: index_words_three demotion_pval_nth)
  have 2: "2 \<in> set final"
    using ex'[of 2 "''the''"] unfolding v p by (simp add: index_words_three demotion_pval_nth)
  have "1 \<in> set (select_pvalues pval (pvalue_threshold sample_featurizer))"
    unfolding p select_three by simp
  with each obtain word where "list_index_words vocab 1 = Some word"
    "1 \<notin> set final \<longleftrightarrow> word \<in> get_stop_words demotion_env (language sample_featurizer)
                 \<and> np_greater (pval ! 1) (pvalue_threshold sample_featurizer / 2)"
    by blast
  then have 1: "1 \<in> set final"
    unfolding v p sw by (auto simp: index_words_three demotion_pval_nth np_greater_def)
  from ok bf 0 1 2 show ?thesis by simp
qed

section \<open>The IDF values of a fitted Featurizer\<close>

lemma preprocess_loop_length:
  "preprocess_loop env lang index qs = Inr docs \<Longrightarrow> length docs = length qs"
  by (induction qs arbitrary: docs) (auto split: sum.splits)

lemma fit_pvalues_Inr:
  assumes "fit_pvalues env self queries y = (self2, Inr (vocab, pval))"
  shows "\<exists>docs idf X.
      preprocess_queries env self queries = Inr docs
    \<and> tfidf_fit_transform env
         (\<lambda>x. tokenize_light env x (tokenizer_language (tfidf_vectorizer self))) docs
        = Inr (vocab, idf, X)
    \<and> chi2 env X y = Inr pval
    \<and> self2 = self\<lparr>tfidf_vectorizer :=
                 (tfidf_vectorizer self)\<lparr>vocabulary := Some vocab, idf_diag := Some idf\<rparr>\<rparr>"
  using assms
  by (auto simp: fit_pvalues_def Let_def split: sum.splits prod.splits)

text \<open>
  Claim C9. When the vectorizer fits as the specification says, a successful \<^verbatim>\<open>fit\<close>
  followed by \<^verbatim>\<open>to_dict\<close> yields an IDF sequence as long as the vocabulary in which,
  for every term \<open>t\<close> with index \<open>i\<close> of the serialized vocabulary, the entry at \<open>i\<close> is
  ln((1+N)/(1+df(t))) + 1, where N is the number of pseudo-documents, one per query, and
  df(t) the number of pseudo-documents whose tokens contain \<open>t\<close>.
\<close>

theorem fit_to_dict_idf_formula:
  assumes "fit env self ds queries y = (self', Inr ReturnSelf)"
    and "tfidf_fit_transform env = specified_fit_transform"
  shows "\<exists>d docs.
      preprocess_queries env
        (self\<lparr>entity_utterances_to_entity_names := Some (fit_entities env (language self) ds)\<rparr>)
        queries = Inr docs
    \<and> length docs = length queries
    \<and> to_dict env self' = Inr d
    \<and> length (d_idf_diag (d_tfidf_vectorizer d)) = length (d_vocab (d_tfidf_vectorizer d))
    \<and> (\<forall>(t, i)\<in>set (d_vocab (d_tfidf_vectorizer d)).
          d_idf_diag (d_tfidf_vectorizer d) ! i =
            ln ((1 + real (length queries))
                / (1 + real (document_frequency
                       (\<lambda>x. tokenize_light env x (tokenizer_language (tfidf_vectorizer self)))
                       docs t))) + 1)"
proof -
  let ?self1 = "self\<lparr>entity_utterances_to_entity_names := Some (fit_entities env (language self) ds)\<rparr>"
  let ?tok = "\<lambda>x. tokenize_light env x (tokenizer_language (tfidf_vectorizer self))"
  from fit_success[OF assms(1)] obtain self2 vocab pval final where
    fp: "fit_pvalues env ?self1 queries y = (self2, Inr (vocab, pval))"
    and s': "self' = self2\<lparr>best_features := Some final\<rparr>"
    by blast
  from fit_pvalues_Inr[OF fp] obtain docs idf X where
    pq: "preprocess_queries env ?self1 queries = Inr docs"
    and ft: "tfidf_fit_transform env ?tok docs = Inr (vocab, idf, X)"
    and s2: "self2 = ?self1\<lparr>tfidf_vectorizer :=
                 (tfidf_vectorizer ?self1)\<lparr>vocabulary := Some vocab, idf_diag := Some idf\<rparr>\<rparr>"
    by auto
  let ?terms = "remdups (concat (map ?tok docs))"
  from ft assms(2) have vocab: "vocab = zip ?terms [0..<length ?terms]"
    and idf: "idf = map (smoothed_idf ?tok docs) ?terms"
    by (simp_all add: specified_fit_transform_def Let_def)
  let ?d = "\<lparr>d_language_code = iso_code (language self'),
             d_tfidf_vectorizer = \<lparr>d_vocab = vocab, d_idf_diag = idf\<rparr>,
             d_best_features = best_features self',
             d_pvalue_threshold = pvalue_threshold self',
             d_entity_utterances_to_entity_names =
               (\<lambda>k. map_option (set_iteration env k) (fit_entities env (language self) ds k))\<rparr>"
  have td: "to_dict env self' = Inr ?d"
    unfolding s' s2 by (simp add: to_dict_def)
  have len: "length docs = length queries"
    using pq by (simp add: preprocess_queries_def preprocess_loop_length)
  have al: "idf ! i = ln ((1 + real (length queries)) / (1 + real (document_frequency ?tok docs t))) + 1"
    if "(t, i) \<in> set vocab" for t i
  proof -
    from that have i: "i < length ?terms" and t: "t = ?terms ! i"
      unfolding vocab by (auto simp: in_set_zip)
    then show ?thesis
      unfolding idf by (simp add: smoothed_idf_def len)
  qed
  have ll: "length idf = length vocab" unfolding vocab idf by simp
  from pq len td ll al show ?thesis
    by (intro exI[of _ ?d] exI[of _ docs]) auto
qed

lemma fit_entities_empty [simp]: "fit_entities env lang empty_dataset = Map.empty"
  by (simp add: fit_entities_def get_utterances_entities_def empty_dataset_def)

lemma entities_features_empty_index [simp]:
  "get_dataset_entities_features env tokens (Some Map.empty) = Inr []"
  by (simp add: get_dataset_entities_features_def)

lemma preprocess_query_empty_index:
  "preprocess_query env q lang (Some Map.empty) =
     Inr (str_join (default_sep lang) (map (\<lambda>t. normalize_stem env t lang) (tokenize_light env q lang)))"
  by (simp add: preprocess_query_def Let_def)

lemma specified_env_fields [simp]:
  "tokenize_light specified_env q lang = sample_tokens [] q"
  "normalize_stem specified_env u lang = u"
  "chi2 specified_env X y = Inr [Val 1]"
  "get_stop_words specified_env lang = {''the'', ''a''}"
  "tfidf_fit_transform specified_env = specified_fit_transform"
  by (simp_all add: specified_env_def sample_env_def sample_resources_def normalize_stem_def)

lemma the_tokens [simp]: "sample_tokens [] ''the'' = [''the'']"
  by simp

theorem fit_to_dict_idf_formula_witness:
  "tfidf_fit_transform specified_env = specified_fit_transform
   \<and> snd (fit specified_env sample_featurizer empty_dataset [''the'', ''the''] [0, 1]) = Inr ReturnSelf
   \<and> (\<exists>d. to_dict specified_env
              (fst (fit specified_env sample_featurizer empty_dataset [''the'', ''the''] [0, 1])) = Inr d
        \<and> d_vocab (d_tfidf_vectorizer d) = [(''the'', 0)]
        \<and> d_idf_diag (d_tfidf_vectorizer d) ! 0 = ln ((1 + 2) / (1 + 2)) + 1)"
proof -
  let ?qs = "[''the'', ''the'']"
  let ?R = "fit specified_env sample_featurizer empty_dataset ?qs [0, 1]"
  let ?self1 = "sample_featurizer\<lparr>entity_utterances_to_entity_names :=
                  Some (fit_entities specified_env (language sample_featurizer) empty_dataset)\<rparr>"
  let ?tok = "\<lambda>x. tokenize_light specified_env x (tokenizer_language (tfidf_vectorizer sample_featurizer))"
  have c: "tfidf_fit_transform specified_env = specified_fit_transform" by simp
  have pq: "preprocess_queries specified_env ?self1 ?qs = Inr [''the'', ''the'']"
    by (simp add: preprocess_queries_def preprocess_query_empty_index EN_def)
  have sf: "specified_fit_transform ?tok [''the'', ''the''] =
      Inr ([(''the'', 0)], [smoothed_idf ?tok [''the'', ''the''] ''the''],
           [l2_normalize [1 * smoothed_idf ?tok [''the'', ''the''] ''the''],
            l2_normalize [1 * smoothed_idf ?tok [''the'', ''the''] ''the'']])"
    by (simp add: specified_fit_transform_def Let_def)
  have fp: "fit_pvalues specified_env ?self1 ?qs [0, 1] =
     (?self1\<lparr>tfidf_vectorizer := (tfidf_vectorizer ?self1)\<lparr>vocabulary := Some [(''the'', 0)],
         idf_diag := Some [smoothed_idf ?tok [''the'', ''the''] ''the'']\<rparr>\<rparr>,
      Inr ([(''the'', 0)], [Val 1]))"
    unfolding fit_pvalues_def pq using sf by simp
  have ne: "\<not> all_queries_empty specified_env (language sample_featurizer) ?qs"
    by (simp add: all_queries_empty_def)
  have fn: "feature_names_of (list_index_words [(''the'', 0)]) [Val 1]
              (select_pvalues [Val 1] (pvalue_threshold sample_featurizer)) = Inr [(0, ''the'', Val 1)]"
    unfolding select_single by (simp add: feature_names_of_def index_words_the)
  note R = fit_unfold[OF ne fp fn]
  have ok: "snd ?R = Inr ReturnSelf" unfolding R by simp
  then have h: "?R = (fst ?R, Inr ReturnSelf)" by (simp add: prod_eq_iff)
  have voc: "vocabulary (tfidf_vectorizer (fst ?R)) = Some [(''the'', 0)]"
    unfolding R by simp
  from fit_to_dict_idf_formula[OF h c] obtain d docs where
    pq': "preprocess_queries specified_env ?self1 ?qs = Inr docs"
    and td: "to_dict specified_env (fst ?R) = Inr d"
    and al: "\<forall>(t, i)\<in>set (d_vocab (d_tfidf_vectorizer d)).
          d_idf_diag (d_tfidf_vectorizer d) ! i =
            ln ((1 + real (length ?qs)) / (1 + real (document_frequency ?tok docs t))) + 1"
    by blast
  from pq pq' have docs: "docs = [''the'', ''the'']" by simp
  from td voc have dv: "d_vocab (d_tfidf_vectorizer d) = [(''the'', 0)]"
    by (auto simp: to_dict_def split: option.splits)
  have df: "document_frequency (sample_tokens []) [''the'', ''the''] ''the'' = 2"
    by (simp add: document_frequency_def)
  from al have "d_idf_diag (d_tfidf_vectorizer d) ! 0 = ln ((1 + 2) / (1 + 2)) + 1"
    unfolding dv docs by (simp add: df)
  with c ok td dv show ?thesis by blast
qed

section \<open>Serialization round trip\<close>

text \<open>
  The tokens of a pseudo-document, as a multiset, do not depend on the order in which
  the sets of entity names are iterated, when the tokenizer splits at spaces.
\<close>

lemma tok_str_join:
  assumes "\<And>a b. tok (a @ '' '' @ b) = tok a @ tok b" and "xs \<noteq> []"
  shows "tok (str_join '' '' xs) = concat (map tok xs)"
  using assms(2)
proof (induction xs rule: list_nonempty_induct)
  case (single x)
  then show ?case by simp
next
  case (cons x xs)
  then obtain y ys where xs: "xs = y # ys" by (cases xs) auto
  have "tok (str_join '' '' (x # y # ys)) = tok (x @ '' '' @ str_join '' '' (y # ys))"
    by simp
  also have "\<dots> = tok x @ tok (str_join '' '' (y # ys))"
    by (rule assms(1))
  finally show ?case using cons.IH by (simp add: xs)
qed

lemma mset_concat_map_cong:
  assumes "mset xs = mset ys"
  shows "mset (concat (map f xs)) = mset (concat (map f ys))"
proof -
  have "mset (concat (map f zs)) = sum_mset (image_mset (\<lambda>z. mset (f z)) (mset zs))" for zs
    by (induction zs) simp_all
  with assms show ?thesis by simp
qed

lemma enumerations_mset:
  assumes "distinct xs" "set xs = A" "distinct ys" "set ys = A"
  shows "mset xs = mset ys"
  using assms by (simp add: set_eq_iff_mset_eq_distinct[symmetric])

lemma entities_features_mset:
  assumes "\<forall>k names. distinct (set_iteration env k names) \<and> set (set_iteration env k names) = fset names"
    and "\<forall>k names. distinct (iteration' k names) \<and> set (iteration' k names) = fset names"
  shows "\<exists>ents ents'.
      get_dataset_entities_features env tokens (Some m) = Inr ents
    \<and> get_dataset_entities_features (env\<lparr>set_iteration := iteration'\<rparr>) tokens (Some m) = Inr ents'
    \<and> mset ents' = mset ents"
proof -
  let ?names = "\<lambda>it ngram. case m ngram of None \<Rightarrow> [] | Some names \<Rightarrow> it ngram names"
  let ?ents = "\<lambda>it ngrams. concat (map (\<lambda>ngram. map (entity_name_to_feature env) (?names it ngram)) ngrams)"
  have n: "mset (?names iteration' ngram) = mset (?names (set_iteration env) ngram)" for ngram
    using assms by (auto split: option.splits intro: enumerations_mset)
  have "mset (?ents iteration' ngrams) = mset (?ents (set_iteration env) ngrams)" for ngrams
    by (induction ngrams) (simp_all add: n)
  moreover have "entity_name_to_feature (env\<lparr>set_iteration := iteration'\<rparr>) = entity_name_to_feature env"
    by (rule ext) (simp add: entity_name_to_feature_def)
  ultimately show ?thesis
    by (simp add: get_dataset_entities_features_def Let_def cong: option.case_cong)
qed

lemma preprocess_query_mset:
  assumes "\<forall>k names. distinct (set_iteration env k names) \<and> set (set_iteration env k names) = fset names"
    and "\<forall>k names. distinct (iteration' k names) \<and> set (iteration' k names) = fset names"
    and "\<forall>a b lang. tokenize_light env (a @ '' '' @ b) lang
            = tokenize_light env a lang @ tokenize_light env b lang"
  shows "\<exists>doc doc'.
      preprocess_query env q lang (Some m) = Inr doc
    \<and> preprocess_query (env\<lparr>set_iteration := iteration'\<rparr>) q lang (Some m) = Inr doc'
    \<and> (\<forall>l. mset (tokenize_light env doc' l) = mset (tokenize_light env doc l))"
proof -
  let ?toks = "map (\<lambda>t. normalize_stem env t lang) (tokenize_light env q lang)"
  let ?features = "str_join (default_sep lang) ?toks"
  from entities_features_mset[OF assms(1,2), of ?toks m] obtain ents ents' where
    e: "get_dataset_entities_features env ?toks (Some m) = Inr ents"
    and e': "get_dataset_entities_features (env\<lparr>set_iteration := iteration'\<rparr>) ?toks (Some m) = Inr ents'"
    and ms: "mset ents' = mset ents"
    by blast
  have ns: "normalize_stem (env\<lparr>set_iteration := iteration'\<rparr>) t lang = normalize_stem env t lang" for t
    by (simp add: normalize_stem_def Let_def)
  let ?doc = "\<lambda>es. if length es \<noteq> 0 then ?features @ '' '' @ str_join '' '' es else ?features"
  have d: "preprocess_query env q lang (Some m) = Inr (?doc ents)"
    using e by (simp add: preprocess_query_def Let_def)
  have d': "preprocess_query (env\<lparr>set_iteration := iteration'\<rparr>) q lang (Some m) = Inr (?doc ents')"
    using e' by (simp add: preprocess_query_def Let_def ns)
  have tk: "tokenize_light env (?doc es) l =
      (if es = [] then tokenize_light env ?features l
       else tokenize_light env ?features l @ concat (map (\<lambda>x. tokenize_light env x l) es))" for es l
    using tok_str_join[of "\<lambda>x. tokenize_light env x l" es] assms(3)
    by (simp add: assms(3)[rule_format])
  from ms have em: "ents' = [] \<longleftrightarrow> ents = []"
    by (metis mset_zero_iff)
  have "mset (tokenize_light env (?doc ents') l) = mset (tokenize_light env (?doc ents) l)" for l
    unfolding tk using em mset_concat_map_cong[OF ms, of "\<lambda>x. tokenize_light env x l"]
    by simp
  with d d' show ?thesis by blast
qed

lemma preprocess_loop_mset:
  assumes "\<forall>k names. distinct (set_iteration env k names) \<and> set (set_iteration env k names) = fset names"
    and "\<forall>k names. distinct (iteration' k names) \<and> set (iteration' k names) = fset names"
    and "\<forall>a b lang. tokenize_light env (a @ '' '' @ b) lang
            = tokenize_light env a lang @ tokenize_light env b lang"
  shows "\<exists>docs docs'.
      preprocess_loop env lang (Some m) qs = Inr docs
    \<and> preprocess_loop (env\<lparr>set_iteration := iteration'\<rparr>) lang (Some m) qs = Inr docs'
    \<and> (\<forall>l. map (\<lambda>doc. mset (tokenize_light env doc l)) docs'
           = map (\<lambda>doc. mset (tokenize_light env doc l)) docs)"
proof (induction qs)
  case Nil
  then show ?case by simp
next
  case (Cons q qs)
  from preprocess_query_mset[OF assms, of q lang m] obtain doc doc' where
    "preprocess_query env q lang (Some m) = Inr doc"
    "preprocess_query (env\<lparr>set_iteration := iteration'\<rparr>) q lang (Some m) = Inr doc'"
    "\<forall>l. mset (tokenize_light env doc' l) = mset (tokenize_light env doc l)"
    by blast
  moreover from Cons obtain docs docs' where
    "preprocess_loop env lang (Some m) qs = Inr docs"
    "preprocess_loop (env\<lparr>set_iteration := iteration'\<rparr>) lang (Some m) qs = Inr docs'"
    "\<forall>l. map (\<lambda>doc. mset (tokenize_light env doc l)) docs'
           = map (\<lambda>doc. mset (tokenize_light env doc l)) docs"
    by blast
  ultimately show ?case by simp
qed

lemma index_roundtrip:
  assumes "\<forall>k names. distinct (set_iteration env k names) \<and> set (set_iteration env k names) = fset names"
  shows "(\<lambda>k. map_option fset_of_list (map_option (set_iteration env k) (index k))) = index"
proof (rule ext)
  fix k
  have "fset_of_list (set_iteration env k names) = names" for names
    using assms by (simp add: fset_inject[symmetric] fset_of_list.rep_eq)
  then show "map_option fset_of_list (map_option (set_iteration env k) (index k)) = index k"
    by (cases "index k") simp_all
qed

text \<open>
  Claim C1, amended. For a fitted Featurizer (vocabulary, IDF diagonal and entity index
  present) whose vectorizer tokenizes in the Featurizer's own language and whose language
  is the one that \<^verbatim>\<open>Language.from_iso_code\<close> gives for its code, \<^verbatim>\<open>to_dict\<close> succeeds,
  \<^verbatim>\<open>from_dict\<close> succeeds on its result, and the reconstructed Featurizer has the same
  language, vocabulary, IDF values, selected features, threshold and entity index, and
  transforms every list of queries to the same result, in whatever order its rebuilt
  sets of names are iterated. The collaborators are taken to behave as they do: a set is
  iterated once through, the tokenizer splits at spaces, and the transform of the
  vectorizer depends on the multiset of the tokens of each document only.
\<close>

theorem to_dict_from_dict_roundtrip:
  assumes "vocabulary (tfidf_vectorizer F) = Some vocab"
    and "idf_diag (tfidf_vectorizer F) = Some idf"
    and "entity_utterances_to_entity_names F = Some index"
    and "tokenizer_language (tfidf_vectorizer F) = language F"
    and "from_iso_code env (iso_code (language F)) = Inr (language F)"
    and "\<forall>k names. distinct (set_iteration env k names) \<and> set (set_iteration env k names) = fset names"
    and "\<forall>k names. distinct (iteration' k names) \<and> set (iteration' k names) = fset names"
    and "\<forall>a b lang. tokenize_light env (a @ '' '' @ b) lang
            = tokenize_light env a lang @ tokenize_light env b lang"
    and "\<forall>tok vocab idf docs docs'.
            map (\<lambda>doc. mset (tok doc)) docs = map (\<lambda>doc. mset (tok doc)) docs'
            \<longrightarrow> tfidf_transform env tok vocab idf docs = tfidf_transform env tok vocab idf docs'"
  shows "\<exists>d F'. to_dict env F = Inr d \<and> from_dict env d = Inr F'
      \<and> language F' = language F
      \<and> vocabulary (tfidf_vectorizer F') = Some vocab
      \<and> idf_diag (tfidf_vectorizer F') = Some idf
      \<and> best_features F' = best_features F
      \<and> pvalue_threshold F' = pvalue_threshold F
      \<and> entity_utterances_to_entity_names F' = Some index
      \<and> (\<forall>Q. transform (env\<lparr>set_iteration := iteration'\<rparr>) F' Q = transform env F Q)"
proof -
  let ?env' = "env\<lparr>set_iteration := iteration'\<rparr>"
  let ?d = "\<lparr>d_language_code = iso_code (language F),
             d_tfidf_vectorizer = \<lparr>d_vocab = vocab, d_idf_diag = idf\<rparr>,
             d_best_features = best_features F,
             d_pvalue_threshold = pvalue_threshold F,
             d_entity_utterances_to_entity_names = (\<lambda>k. map_option (set_iteration env k) (index k))\<rparr>"
  have td: "to_dict env F = Inr ?d"
    using assms(1-3) by (simp add: to_dict_def)
  have v: "tfidf_vectorizer F = \<lparr>tokenizer_language = language F, vocabulary = Some vocab, idf_diag = Some idf\<rparr>"
    using assms(1,2,4) by (cases "tfidf_vectorizer F") simp
  have fd: "from_dict env ?d = Inr F"
    using assms(3,5) v
    by (cases F) (simp add: from_dict_def Featurizer_init_def deserialize_tfidf_vectorizer_def
          default_tfidf_vectorizer_def index_roundtrip[OF assms(6)])
  have tr: "transform ?env' F Q = transform env F Q" for Q
  proof -
    let ?tok = "\<lambda>x. tokenize_light env x (tokenizer_language (tfidf_vectorizer F))"
    from preprocess_loop_mset[OF assms(6,7,8), of "language F" index Q] obtain docs docs' where
      p: "preprocess_loop env (language F) (Some index) Q = Inr docs"
      and p': "preprocess_loop ?env' (language F) (Some index) Q = Inr docs'"
      and ms: "\<forall>l. map (\<lambda>doc. mset (tokenize_light env doc l)) docs'
                 = map (\<lambda>doc. mset (tokenize_light env doc l)) docs"
      by blast
    from ms have "map (\<lambda>doc. mset (?tok doc)) docs' = map (\<lambda>doc. mset (?tok doc)) docs"
      by blast
    then have "tfidf_transform env ?tok vocab idf docs' = tfidf_transform env ?tok vocab idf docs"
      by (rule assms(9)[rule_format, of ?tok docs' docs vocab idf])
    then have "vectorizer_transform ?env' (tfidf_vectorizer F) docs'
             = vectorizer_transform env (tfidf_vectorizer F) docs"
      using assms(1,2) by (simp add: vectorizer_transform_def)
    with p p' assms(3) show ?thesis
      by (simp add: transform_def preprocess_queries_def)
  qed
  from td fd assms(1-3) tr show ?thesis by simp
qed

text \<open>The sample tokenizer splits at spaces.\<close>

lemma sample_tokens_split:
  "sample_tokens cur (a @ CHR '' '' # b) = sample_tokens cur a @ sample_tokens [] b"
  by (induction a arbitrary: cur) simp_all

text \<open>The sample transform counts the terms of the vocabulary among the tokens.\<close>

lemma count_list_mset: "count_list xs x = count (mset xs) x"
  by (induction xs) simp_all

lemma sample_transform_bag:
  assumes "map (\<lambda>doc. mset (tok doc)) docs = map (\<lambda>doc. mset (tok doc)) docs'"
  shows "tfidf_transform (sample_resources fitted pvalues) tok vocab idf docs
       = tfidf_transform (sample_resources fitted pvalues) tok vocab idf docs'"
proof -
  have e: "map (\<lambda>doc. map (\<lambda>(term, i). real (count_list (tok doc) term)) vocab) ds
      = map (\<lambda>m. map (\<lambda>(term, i). real (count m term)) vocab) (map (\<lambda>doc. mset (tok doc)) ds)"
    for ds
    by (induction ds) (auto simp: count_list_mset)
  have t: "tfidf_transform (sample_resources fitted pvalues) tok vocab idf ds
      = Inr (map (\<lambda>doc. map (\<lambda>(term, i). real (count_list (tok doc) term)) vocab) ds)" for ds
    by (simp add: sample_resources_def)
  show ?thesis unfolding t e assms ..
qed

text \<open>
  A successful \<^verbatim>\<open>fit\<close> leaves the vocabulary, the IDF diagonal and the entity index
  present, and changes neither the language nor the tokenizer of the vectorizer.
\<close>

lemma fit_pvalues_fields:
  assumes "fit_pvalues env self queries y = (self2, Inr (vocab, pval))"
  shows "\<exists>idf. tfidf_vectorizer self2 =
           (tfidf_vectorizer self)\<lparr>vocabulary := Some vocab, idf_diag := Some idf\<rparr>
         \<and> self2 = self\<lparr>tfidf_vectorizer := tfidf_vectorizer self2\<rparr>"
  using assms
  by (auto simp: fit_pvalues_def Let_def split: sum.splits prod.splits)

lemma fit_success_fitted:
  assumes "fit env self ds queries y = (self', Inr ReturnSelf)"
  shows "\<exists>vocab idf.
      vocabulary (tfidf_vectorizer self') = Some vocab
    \<and> idf_diag (tfidf_vectorizer self') = Some idf
    \<and> entity_utterances_to_entity_names self' = Some (fit_entities env (language self) ds)
    \<and> tokenizer_language (tfidf_vectorizer self') = tokenizer_language (tfidf_vectorizer self)
    \<and> language self' = language self"
proof -
  from fit_success[OF assms] obtain self2 vocab pval final where
    fp: "fit_pvalues env (self\<lparr>entity_utterances_to_entity_names :=
                         Some (fit_entities env (language self) ds)\<rparr>) queries y
        = (self2, Inr (vocab, pval))"
    and s': "self' = self2\<lparr>best_features := Some final\<rparr>"
    by blast
  from fit_pvalues_fields[OF fp] obtain idf where
    v: "tfidf_vectorizer self2 =
           (tfidf_vectorizer (self\<lparr>entity_utterances_to_entity_names :=
                         Some (fit_entities env (language self) ds)\<rparr>))\<lparr>vocabulary := Some vocab, idf_diag := Some idf\<rparr>"
    and s2: "self2 = self\<lparr>entity_utterances_to_entity_names :=
                         Some (fit_entities env (language self) ds)\<rparr>\<lparr>tfidf_vectorizer := tfidf_vectorizer self2\<rparr>"
    by blast
  have "language self2 = language self"
    by (subst s2) simp
  moreover have "entity_utterances_to_entity_names self2 = Some (fit_entities env (language self) ds)"
    by (subst s2) simp
  ultimately show ?thesis
    unfolding s' using v by simp
qed


theorem to_dict_from_dict_roundtrip_witness:
  "snd (fit demotion_env sample_featurizer sample_dataset [''a flight'', ''the flight''] [0, 1])
     = Inr ReturnSelf
   \<and> reversed_iteration ''paris'' {|''a'', ''b''|} = [''b'', ''a'']
   \<and> set_iteration demotion_env ''paris'' {|''a'', ''b''|} = [''a'', ''b'']
   \<and> (\<exists>d F'.
        to_dict demotion_env
          (fst (fit demotion_env sample_featurizer sample_dataset
                  [''a flight'', ''the flight''] [0, 1])) = Inr d
      \<and> from_dict demotion_env d = Inr F'
      \<and> language F' = EN
      \<and> (\<forall>Q. transform (demotion_env\<lparr>set_iteration := reversed_iteration\<rparr>) F' Q =
               transform demotion_env
                 (fst (fit demotion_env sample_featurizer sample_dataset
                         [''a flight'', ''the flight''] [0, 1])) Q))"
proof -
  let ?R = "fit demotion_env sample_featurizer sample_dataset [''a flight'', ''the flight''] [0, 1]"
  let ?self1 = "sample_featurizer\<lparr>entity_utterances_to_entity_names :=
                  Some (fit_entities demotion_env (language sample_featurizer) sample_dataset)\<rparr>"
  have fp: "fit_pvalues demotion_env ?self1 [''a flight'', ''the flight''] [0, 1] =
     (?self1\<lparr>tfidf_vectorizer := (tfidf_vectorizer ?self1)\<lparr>vocabulary := Some demotion_vocab,
                                                         idf_diag := Some [1, 1, 1]\<rparr>\<rparr>,
      Inr (demotion_vocab, demotion_pval))"
    unfolding demotion_env_def by (rule sample_fit_pvalues) simp
  have fn: "feature_names_of (list_index_words demotion_vocab) demotion_pval
              (select_pvalues demotion_pval (pvalue_threshold sample_featurizer)) =
      Inr [(0, ''a'', Val 0.36), (1, ''flight'', Val 0.3), (2, ''the'', Val 0.04)]"
    unfolding select_three by (simp add: feature_names_of_def index_words_three demotion_pval_nth)
  have ok: "snd ?R = Inr ReturnSelf"
    unfolding fit_unfold[OF demotion_not_empty fp fn] by simp
  then have h: "?R = (fst ?R, Inr ReturnSelf)" by (simp add: prod_eq_iff)
  from fit_success_fitted[OF h] obtain vocab idf where
    h1: "vocabulary (tfidf_vectorizer (fst ?R)) = Some vocab"
    and h2: "idf_diag (tfidf_vectorizer (fst ?R)) = Some idf"
    and h3: "entity_utterances_to_entity_names (fst ?R)
               = Some (fit_entities demotion_env (language sample_featurizer) sample_dataset)"
    and tl: "tokenizer_language (tfidf_vectorizer (fst ?R))
               = tokenizer_language (tfidf_vectorizer sample_featurizer)"
    and l: "language (fst ?R) = language sample_featurizer"
    by blast
  have h4: "tokenizer_language (tfidf_vectorizer (fst ?R)) = language (fst ?R)"
    unfolding tl l by (simp add: default_tfidf_vectorizer_def)
  have h5: "from_iso_code demotion_env (iso_code (language (fst ?R))) = Inr (language (fst ?R))"
    unfolding l by (simp add: demotion_env_def sample_resources_def EN_def)
  have h6: "\<forall>k names. distinct (set_iteration demotion_env k names)
              \<and> set (set_iteration demotion_env k names) = fset names"
    by (simp add: demotion_env_def sample_resources_def sorted_list_of_fset.rep_eq)
  have h7: "\<forall>k names. distinct (reversed_iteration k names)
              \<and> set (reversed_iteration k names) = fset names"
    by (simp add: reversed_iteration_def sorted_list_of_fset.rep_eq)
  have h8: "\<forall>a b lang. tokenize_light demotion_env (a @ '' '' @ b) lang
            = tokenize_light demotion_env a lang @ tokenize_light demotion_env b lang"
    by (simp add: demotion_env_def sample_resources_def sample_tokens_split)
  have h9: "\<forall>tok vocab idf docs docs'.
            map (\<lambda>doc. mset (tok doc)) docs = map (\<lambda>doc. mset (tok doc)) docs'
            \<longrightarrow> tfidf_transform demotion_env tok vocab idf docs
                = tfidf_transform demotion_env tok vocab idf docs'"
    unfolding demotion_env_def by (intro allI impI) (rule sample_transform_bag)
  have r: "reversed_iteration ''paris'' {|''a'', ''b''|} = [''b'', ''a'']"
    by (simp add: reversed_iteration_def sorted_list_of_fset.rep_eq)
  have s: "set_iteration demotion_env ''paris'' {|''a'', ''b''|} = [''a'', ''b'']"
    by (simp add: demotion_env_def sample_resources_def sorted_list_of_fset.rep_eq)
  from to_dict_from_dict_roundtrip[OF h1 h2 h3 h4 h5 h6 h7 h8 h9] l
  have "\<exists>d F'. to_dict demotion_env (fst ?R) = Inr d \<and> from_dict demotion_env d = Inr F'
      \<and> language F' = EN
      \<and> (\<forall>Q. transform (demotion_env\<lparr>set_iteration := reversed_iteration\<rparr>) F' Q
             = transform demotion_env (fst ?R) Q)"
    by auto
  with ok r s show ?thesis by blast
qed

lemma EN_not_ZZ [simp]: "EN \<noteq> ZZ" "ZZ \<noteq> EN"
  by (simp_all add: EN_def ZZ_def)

lemma EN_fields [simp]: "default_sep EN = '' ''" "iso_code EN = ''en''"
  by (simp_all add: EN_def)

lemma bilingual_env_fields [simp]:
  "tokenize_light bilingual_env q EN = sample_tokens [] q"
  "tokenize_light bilingual_env q ZZ = (if q = [] then [] else [q])"
  "normalize_stem bilingual_env u lang = u"
  "chi2 bilingual_env X y = Inr [Val 1]"
  "tfidf_fit_transform bilingual_env tok docs = Inr ([(''a b'', 0)], [1], [[1], [1]])"
  "tfidf_transform bilingual_env tok vocab idf docs =
     Inr (map (\<lambda>doc. map (\<lambda>(term, i). real (count_list (tok doc) term)) vocab) docs)"
  "get_stop_words bilingual_env lang = {''the'', ''a''}"
  "from_iso_code bilingual_env ''en'' = Inr EN"
  by (simp_all add: bilingual_env_def sample_resources_def normalize_stem_def)

lemma foreign_featurizer_fields [simp]:
  "language foreign_featurizer = EN"
  "tfidf_vectorizer foreign_featurizer = default_tfidf_vectorizer ZZ"
  "best_features foreign_featurizer = None"
  "pvalue_threshold foreign_featurizer = 0.4"
  "entity_utterances_to_entity_names foreign_featurizer = None"
  by (simp_all add: foreign_featurizer_def Featurizer_init_def)

lemma a_b_tokens [simp]: "sample_tokens [] ''a b'' = [''a'', ''b'']"
  by simp

lemma fit_foreign:
  "fit bilingual_env foreign_featurizer empty_dataset [''a b'', ''a b''] [0, 1]
     = (foreign_fitted, Inr ReturnSelf)"
proof -
  let ?qs = "[''a b'', ''a b'']"
  let ?self1 = "foreign_featurizer\<lparr>entity_utterances_to_entity_names :=
                  Some (fit_entities bilingual_env (language foreign_featurizer) empty_dataset)\<rparr>"
  have pq: "preprocess_queries bilingual_env ?self1 ?qs = Inr [''a b'', ''a b'']"
    by (simp add: preprocess_queries_def preprocess_query_empty_index)
  have fp: "fit_pvalues bilingual_env ?self1 ?qs [0, 1] =
     (?self1\<lparr>tfidf_vectorizer := (tfidf_vectorizer ?self1)\<lparr>vocabulary := Some [(''a b'', 0)],
         idf_diag := Some [1]\<rparr>\<rparr>,
      Inr ([(''a b'', 0)], [Val 1]))"
    unfolding fit_pvalues_def pq by simp
  have ne: "\<not> all_queries_empty bilingual_env (language foreign_featurizer) ?qs"
    by (simp add: all_queries_empty_def)
  have sel: "select_pvalues [Val 1] (pvalue_threshold foreign_featurizer) = [0]"
    by (simp add: select_pvalues_def np_less_def np_eq_def)
  have fn: "feature_names_of (list_index_words [(''a b'', 0)]) [Val 1]
              (select_pvalues [Val 1] (pvalue_threshold foreign_featurizer)) = Inr [(0, ''a b'', Val 1)]"
    unfolding sel by (simp add: feature_names_of_def list_index_words_def)
  have dm: "demote_stop_words (get_stop_words bilingual_env (language foreign_featurizer))
              (pvalue_threshold foreign_featurizer) [(0, ''a b'', Val 1)]
              (select_pvalues [Val 1] (pvalue_threshold foreign_featurizer)) = [0]"
    unfolding sel by (simp add: demote_stop_words_def)
  show ?thesis
    unfolding fit_unfold[OF ne fp fn] dm
    by (simp add: foreign_fitted_def foreign_featurizer_def Featurizer_init_def
          default_tfidf_vectorizer_def)
qed

text \<open>
  Claim C1, as stated, fails. A Featurizer of one language constructed with a vectorizer
  that tokenizes in another is fitted with success; it transforms \<^verbatim>\<open>["a b"]\<close> to
  \<^verbatim>\<open>[[1]]\<close>. \<^verbatim>\<open>from_dict\<close> rebuilds the default vectorizer of the Featurizer's language,
  and the reconstructed Featurizer transforms the same query to \<^verbatim>\<open>[[0]]\<close>.
\<close>

theorem roundtrip_changes_transform_of_foreign_vectorizer:
  "snd (fit bilingual_env foreign_featurizer empty_dataset [''a b'', ''a b''] [0, 1]) = Inr ReturnSelf
   \<and> transform bilingual_env
        (fst (fit bilingual_env foreign_featurizer empty_dataset [''a b'', ''a b''] [0, 1]))
        [''a b''] = Inr [[1]]
   \<and> \<not> isl (to_dict bilingual_env
        (fst (fit bilingual_env foreign_featurizer empty_dataset [''a b'', ''a b''] [0, 1])))
   \<and> \<not> isl (from_dict bilingual_env (projr (to_dict bilingual_env
        (fst (fit bilingual_env foreign_featurizer empty_dataset [''a b'', ''a b''] [0, 1])))))
   \<and> transform bilingual_env
        (projr (from_dict bilingual_env (projr (to_dict bilingual_env
           (fst (fit bilingual_env foreign_featurizer empty_dataset [''a b'', ''a b''] [0, 1]))))))
        [''a b''] = Inr [[0]]"
proof -
  let ?d = "\<lparr>d_language_code = ''en'',
             d_tfidf_vectorizer = \<lparr>d_vocab = [(''a b'', 0)], d_idf_diag = [1]\<rparr>,
             d_best_features = Some [0],
             d_pvalue_threshold = 0.4,
             d_entity_utterances_to_entity_names = Map.empty\<rparr>"
  let ?F' = "\<lparr>language = EN,
      tfidf_vectorizer = \<lparr>tokenizer_language = EN, vocabulary = Some [(''a b'', 0)],
                          idf_diag = Some [1]\<rparr>,
      best_features = Some [0],
      pvalue_threshold = 0.4,
      entity_utterances_to_entity_names = Some Map.empty\<rparr>"
  have t1: "transform bilingual_env foreign_fitted [''a b''] = Inr [[1]]"
    by (simp add: transform_def preprocess_queries_def preprocess_query_empty_index
          vectorizer_transform_def select_columns_def foreign_fitted_def)
  have td: "to_dict bilingual_env foreign_fitted = Inr ?d"
    by (simp add: to_dict_def foreign_fitted_def)
  have fd: "from_dict bilingual_env ?d = Inr ?F'"
    by (simp add: from_dict_def Featurizer_init_def deserialize_tfidf_vectorizer_def
          default_tfidf_vectorizer_def)
  have t2: "transform bilingual_env ?F' [''a b''] = Inr [[0]]"
    by (simp add: transform_def preprocess_queries_def preprocess_query_empty_index
          vectorizer_transform_def select_columns_def)
  show ?thesis
    unfolding fit_foreign
    by (simp only: fst_conv snd_conv t1 td fd t2 sum.sel sum.disc simp_thms)
qed

end
